theory Spec2Isabelle
  imports Main "HOL-Library.Sublist"
begin


section \<open>Python strings and paths, as \<^verbatim>\<open>sunstorm.py\<close> uses them\<close>

text \<open>
  Strings are \<^typ>\<open>string\<close>. All strings the program inspects character by character
  (octal mode strings, board identifiers, path separators) are ASCII.
\<close>

definition startswith :: "string \<Rightarrow> string \<Rightarrow> bool" where
  "startswith s p = prefix p s"

definition endswith :: "string \<Rightarrow> string \<Rightarrow> bool" where
  "endswith s p = suffix p s"

text \<open>\<^verbatim>\<open>str.endswith\<close> with a tuple of suffixes.\<close>

definition endswith_any :: "string \<Rightarrow> string list \<Rightarrow> bool" where
  "endswith_any s ps = list_ex (endswith s) ps"

text \<open>\<^verbatim>\<open>p.rfind('/') + 1\<close>: the length of the longest prefix of \<open>p\<close> that ends in a
  separator, \<open>0\<close> when \<open>p\<close> has none.\<close>

definition rfind_sep :: "string \<Rightarrow> nat" where
  "rfind_sep p = length p - length (takeWhile (\<lambda>c. c \<noteq> CHR ''/'') (rev p))"

definition rstrip_sep :: "string \<Rightarrow> string" where
  "rstrip_sep h = rev (dropWhile (\<lambda>c. c = CHR ''/'') (rev h))"

text \<open>\<^verbatim>\<open>posixpath.basename\<close> and \<^verbatim>\<open>posixpath.dirname\<close>.\<close>

definition os_basename :: "string \<Rightarrow> string" where
  "os_basename p = drop (rfind_sep p) p"

definition os_dirname :: "string \<Rightarrow> string" where
  "os_dirname p =
     (let head = take (rfind_sep p) p
      in if head \<noteq> [] \<and> head \<noteq> replicate (length head) CHR ''/'' then rstrip_sep head else head)"

text \<open>\<^verbatim>\<open>oct(n)\<close> for a non-negative integer: \<^verbatim>\<open>'0o'\<close> and the octal digits.\<close>

definition digit_char :: "nat \<Rightarrow> char" where
  "digit_char d = ''01234567'' ! d"

function oct_digits :: "nat \<Rightarrow> string" where
  "oct_digits n = (if n < 8 then [digit_char n] else oct_digits (n div 8) @ [digit_char (n mod 8)])"
  by pat_completeness auto
termination
  by (relation "measure id") auto

declare oct_digits.simps [simp del]

definition oct :: "nat \<Rightarrow> string" where
  "oct n = ''0o'' @ oct_digits n"

text \<open>The slice \<^verbatim>\<open>s[-3:]\<close>.\<close>

definition last3 :: "string \<Rightarrow> string" where
  "last3 s = drop (length s - 3) s"

text \<open>
  \<^verbatim>\<open>int(s)\<close> on the strings the program gives it, which are slices of \<^verbatim>\<open>oct(...)\<close>
  (characters \<^verbatim>\<open>0\<close>..\<^verbatim>\<open>7\<close> and \<^verbatim>\<open>o\<close>): a non-empty string of decimal digits is read in
  base ten; anything else raises \<^verbatim>\<open>ValueError\<close>, which is \<open>None\<close> here.
\<close>

definition digit_val :: "char \<Rightarrow> nat option" where
  "digit_val c =
     (if 48 \<le> (of_char c :: nat) \<and> (of_char c :: nat) \<le> 57 then Some (of_char c - 48) else None)"

fun int_digits :: "nat \<Rightarrow> string \<Rightarrow> nat option" where
  "int_digits acc [] = Some acc"
| "int_digits acc (c # cs) =
     (case digit_val c of None \<Rightarrow> None | Some d \<Rightarrow> int_digits (10 * acc + d) cs)"

definition py_int :: "string \<Rightarrow> nat option" where
  "py_int s = (if s = [] then None else int_digits 0 s)"

text \<open>\<^verbatim>\<open>str.lower\<close> on ASCII text: \<^verbatim>\<open>A\<close>..\<^verbatim>\<open>Z\<close> move to \<^verbatim>\<open>a\<close>..\<^verbatim>\<open>z\<close>, every other
  character stays.\<close>

definition is_upper :: "char \<Rightarrow> bool" where
  "is_upper c = (65 \<le> (of_char c :: nat) \<and> (of_char c :: nat) \<le> 90)"

definition lower_char :: "char \<Rightarrow> char" where
  "lower_char c = (if is_upper c then char_of ((of_char c :: nat) + 32) else c)"

definition lower :: "string \<Rightarrow> string" where
  "lower s = map lower_char s"

text \<open>Truthiness of a Python string, and of a value that is a string or \<^verbatim>\<open>None\<close>.\<close>

definition truthy :: "string \<Rightarrow> bool" where
  "truthy s = (s \<noteq> [])"

definition truthy_opt :: "string option \<Rightarrow> bool" where
  "truthy_opt v = (case v of None \<Rightarrow> False | Some s \<Rightarrow> truthy s)"


section \<open>The build manifest\<close>

text \<open>
  Modelled from the spec: the class \<^verbatim>\<open>Manifest\<close> of the module \<^verbatim>\<open>manifest\<close>
  (\<^verbatim>\<open>from manifest import Manifest\<close>, line 30) is not among the sources. The data model and
  the two queries follow sections 3 and 4.1 of the specification: a manifest is an ordered
  sequence of build identities and a global build version; an identity has a board key and
  a mapping from component names to relative paths.
\<close>

record BuildIdentity =
  boardConfig :: string
  components :: "(string \<times> string) list"

record BuildManifest =
  identities :: "BuildIdentity list"
  productBuildVersion :: "string option"

text \<open>
  Modelled from the spec: \<^verbatim>\<open>Manifest.get_comp\<close> is the specification's
  \<^verbatim>\<open>resolveComponent\<close>: a case-insensitive exact match of the board string against each
  identity's board key; the mapped path of the component, or \<open>None\<close> (\<^verbatim>\<open>NotFound\<close>) when
  the board or the component name is absent. It returns a value and prints nothing.
\<close>

definition get_comp :: "BuildManifest \<Rightarrow> string \<Rightarrow> string \<Rightarrow> string option" where
  "get_comp manifest board name =
     (case find (\<lambda>i. lower (boardConfig i) = lower board) (identities manifest) of
        None \<Rightarrow> None
      | Some i \<Rightarrow> map_of (components i) name)"


section \<open>Effects: the trace of a run, exits and exceptions\<close>

text \<open>
  What a run does to the outside world is recorded, in order, as a list of events. The
  program is single-threaded and every external command is waited for, so one list is the
  whole history.
\<close>

datatype event =
    Stdout string                 \<comment> \<open>\<^verbatim>\<open>print(...)\<close>\<close>
  | Stderr string                 \<comment> \<open>\<^verbatim>\<open>print(..., file=sys.stderr)\<close>\<close>
  | StdoutArgs "string list"      \<comment> \<open>\<^verbatim>\<open>print(arguments)\<close> of a list\<close>
  | Subprocess "string list"      \<comment> \<open>\<^verbatim>\<open>subprocess.run(arguments, capture_output=True)\<close>\<close>
  | MkDir string                  \<comment> \<open>\<^verbatim>\<open>os.mkdir\<close>, \<^verbatim>\<open>os.makedirs\<close>\<close>
  | ExtractAll string string      \<comment> \<open>\<^verbatim>\<open>ZipFile(ipsw).extractall(work)\<close>\<close>
  | WriteFile string string       \<comment> \<open>\<^verbatim>\<open>open(path, 'w').write(data)\<close>\<close>
  | Remove string                 \<comment> \<open>\<^verbatim>\<open>os.remove\<close>\<close>
  | RmTree string                 \<comment> \<open>\<^verbatim>\<open>shutil.rmtree\<close>\<close>
  | Move string string            \<comment> \<open>\<^verbatim>\<open>shutil.move\<close>\<close>
  | Input string                  \<comment> \<open>\<^verbatim>\<open>input(prompt)\<close>\<close>

record state =
  trace :: "event list"
  atexit :: "string list"         \<comment> \<open>directories registered with \<^verbatim>\<open>atexit.register(cleanup, _)\<close>\<close>

datatype pyexn = TypeError | ValueError | ManifestParseError | ManifestFieldMissing

datatype abort =
    SysExit int                   \<comment> \<open>\<^verbatim>\<open>sys.exit(n)\<close>\<close>
  | Uncaught pyexn                \<comment> \<open>an exception nothing catches: traceback, exit status 1\<close>

datatype 'a result = Ok 'a state | Halt abort state

type_synonym step = "state \<Rightarrow> unit result"

definition and_then :: "'a result \<Rightarrow> ('a \<Rightarrow> state \<Rightarrow> 'b result) \<Rightarrow> 'b result" where
  "and_then r f = (case r of Ok a s \<Rightarrow> f a s | Halt e s \<Rightarrow> Halt e s)"

definition discard :: "(state \<Rightarrow> 'a result) \<Rightarrow> step" where
  "discard f s = and_then (f s) (\<lambda>_. Ok ())"

text \<open>Statements one after the other; the first exit or exception ends the block.\<close>

fun seq :: "step list \<Rightarrow> step" where
  "seq [] s = Ok () s"
| "seq (f # fs) s = and_then (f s) (\<lambda>_. seq fs)"

definition skip :: step where
  "skip s = Ok () s"

definition emit :: "event \<Rightarrow> step" where
  "emit e s = Ok () (s\<lparr>trace := trace s @ [e]\<rparr>)"

definition sys_exit :: "int \<Rightarrow> step" where
  "sys_exit n s = Halt (SysExit n) s"

definition raise :: "pyexn \<Rightarrow> step" where
  "raise e s = Halt (Uncaught e) s"

definition state_of :: "'a result \<Rightarrow> state" where
  "state_of r = (case r of Ok _ s \<Rightarrow> s | Halt _ s \<Rightarrow> s)"

text \<open>The external commands of a trace, in order.\<close>

fun subprocesses :: "event list \<Rightarrow> string list list" where
  "subprocesses [] = []"
| "subprocesses (Subprocess args # es) = args # subprocesses es"
| "subprocesses (_ # es) = subprocesses es"

fun is_stderr :: "event \<Rightarrow> bool" where
  "is_stderr (Stderr _) = True"
| "is_stderr _ = False"


section \<open>The environment of a run\<close>

text \<open>
  Everything the program asks of the interpreter, the operating system, the key service
  and the operator is a field of the environment. An external command's exit status and
  captured output may depend on the whole history so far. The filesystem queries of the
  image synthesis and of the pruning step answer from the tree as it stands when that
  step runs; its commands (\<^verbatim>\<open>hfsplus\<close> on the image file, \<^verbatim>\<open>os.remove\<close>) are not
  followed back into those answers.
\<close>

record env =
  LINUX :: bool                                        \<comment> \<open>\<^verbatim>\<open>sys.platform == 'linux'\<close>\<close>
  DEBUG :: bool                                        \<comment> \<open>the global \<^verbatim>\<open>DEBUG\<close>\<close>
  ROOT :: string                                       \<comment> \<open>\<^verbatim>\<open>os.path.dirname(__file__)\<close>\<close>
  sys_executable :: string
  subprocess_run :: "event list \<Rightarrow> string list \<Rightarrow> int \<times> string"
      \<comment> \<open>\<^verbatim>\<open>returncode\<close> and \<^verbatim>\<open>stdout\<close> of a command, given the history\<close>
  mkdtemp :: "string \<Rightarrow> string"                        \<comment> \<open>\<^verbatim>\<open>tempfile.mkdtemp(prefix=_)\<close>\<close>
  path_exists :: "string \<Rightarrow> bool"                      \<comment> \<open>\<^verbatim>\<open>os.path.exists\<close>\<close>
  glob :: "string \<Rightarrow> string list"                      \<comment> \<open>\<^verbatim>\<open>glob.glob(pattern, recursive=True)\<close>\<close>
  relpath :: "string \<Rightarrow> string \<Rightarrow> string"               \<comment> \<open>\<^verbatim>\<open>os.path.relpath(path, start)\<close>\<close>
  realpath :: "string \<Rightarrow> string"                       \<comment> \<open>\<^verbatim>\<open>os.path.realpath\<close>\<close>
  lstat_mode :: "string \<Rightarrow> nat"
      \<comment> \<open>\<^verbatim>\<open>os.stat(file, follow_symlinks=False).st_mode\<close>\<close>
  isdir :: "string \<Rightarrow> bool"                            \<comment> \<open>\<^verbatim>\<open>os.path.isdir\<close>: follows symbolic links\<close>
  islink :: "string \<Rightarrow> bool"                           \<comment> \<open>\<^verbatim>\<open>os.path.islink\<close>\<close>
  readlink :: "string \<Rightarrow> string"                       \<comment> \<open>\<^verbatim>\<open>os.readlink\<close>\<close>
  which :: "string \<Rightarrow> bool"                            \<comment> \<open>\<^verbatim>\<open>bool(shutil.which(prog))\<close>\<close>
  read_manifest :: "string \<Rightarrow> BuildManifest option"
      \<comment> \<open>\<^verbatim>\<open>Manifest(open(path, 'rb').read())\<close>; \<open>None\<close> when the bytes do not parse\<close>
  get_keys :: "string option \<Rightarrow> string \<Rightarrow> string \<Rightarrow> string \<times> string \<times> string \<times> string"
      \<comment> \<open>\<^verbatim>\<open>api.get_keys(identifier, boardconfig, productbuildversion)\<close>\<close>
  input_line :: "string \<Rightarrow> string"                     \<comment> \<open>the operator's answer to \<^verbatim>\<open>input(prompt)\<close>\<close>


section \<open>Logging and the command wrapper (lines 45--105)\<close>

definition print_error :: "string \<Rightarrow> step" where
  "print_error string = emit (Stderr (''[!] Error: '' @ string))"

definition print_info :: "string \<Rightarrow> step" where
  "print_info string = emit (Stdout (''[*] Info: '' @ string))"

text \<open>
  The message \<^verbatim>\<open>f'Command "{arguments}" returned non-zero'\<close>. The list is rendered as
  Python renders a list of strings that hold no quote, backslash or control character.
\<close>

fun join_comma :: "string list \<Rightarrow> string" where
  "join_comma [] = []"
| "join_comma [a] = a"
| "join_comma (a # b # cs) = a @ '', '' @ join_comma (b # cs)"

definition repr_list :: "string list \<Rightarrow> string" where
  "repr_list arguments = ''['' @ join_comma (map (\<lambda>a. [CHR 0x27] @ a @ [CHR 0x27]) arguments) @ '']''"

definition command_failed :: "string list \<Rightarrow> string" where
  "command_failed arguments = ''Command '' @ [CHR 0x22] @ repr_list arguments @ [CHR 0x22] @ '' returned non-zero''"

definition execute :: "env \<Rightarrow> string list \<Rightarrow> bool \<Rightarrow> state \<Rightarrow> string result" where
  "execute e arguments ignore_errors s =
     (let s1 = (if DEBUG e then s\<lparr>trace := trace s @ [StdoutArgs arguments]\<rparr> else s);
          (returncode, out) = subprocess_run e (trace s1) arguments;
          s2 = s1\<lparr>trace := trace s1 @ [Subprocess arguments]\<rparr>
      in if returncode > 0 then
           (let s3 = s2\<lparr>trace := trace s2 @ [Stderr (''[!] Error: '' @ command_failed arguments)]\<rparr>
            in if \<not> ignore_errors then Halt (SysExit 1) s3 else Ok out s3)
         else Ok out s2)"

text \<open>A call of \<^verbatim>\<open>execute\<close> whose captured output is not used.\<close>

definition run :: "env \<Rightarrow> string list \<Rightarrow> bool \<Rightarrow> step" where
  "run e arguments ignore_errors = discard (execute e arguments ignore_errors)"


section \<open>Pruning intermediate files: \<^verbatim>\<open>cleanup_trim\<close> (lines 62--71)\<close>

text \<open>\<^verbatim>\<open>os.remove(fn)\<close> inside \<^verbatim>\<open>try: ... except: pass\<close>: the call is made, and a failure
  of it (a directory, a file already gone) is swallowed.\<close>

definition os_remove :: "string \<Rightarrow> step" where
  "os_remove fn = emit (Remove fn)"

definition cleanup_trim :: "env \<Rightarrow> string \<Rightarrow> string \<Rightarrow> step" where
  "cleanup_trim e work suffix' =
     (let file_list = filter (\<lambda>fn. \<not> endswith (os_basename fn) suffix') (glob e (work @ ''/**/*''))
      in seq (map (\<lambda>fn. if startswith fn work \<and> \<not> DEBUG e then os_remove fn else skip) file_list))"


section \<open>Image synthesis: \<^verbatim>\<open>linux_hfsplus_sync\<close> (lines 107--156)\<close>

text \<open>Lines 124--129, the body of the directory loop.\<close>

definition sync_directory :: "env \<Rightarrow> string \<Rightarrow> string \<Rightarrow> step" where
  "sync_directory e work directory =
     (let path = relpath e directory (work @ ''/ramdisk'');
          path = (if \<not> startswith path ''/'' then ''/'' @ path else path)
      in run e [''hfsplus'', work @ ''/ramdisk.dmg'', ''mkdir'', path] True)"

text \<open>
  Lines 145--146: \<^verbatim>\<open>dirname.endswith(('bin', 'sbin', 'libexec')) and int(permission) < 755\<close>
  replaces the permission by \<^verbatim>\<open>"100755"\<close>. \<^verbatim>\<open>and\<close> evaluates \<^verbatim>\<open>int\<close> only when the
  directory test holds; \<open>Inl ValueError\<close> is the exception \<^verbatim>\<open>int\<close> raises.
\<close>

definition chmod_permission :: "string \<Rightarrow> string \<Rightarrow> pyexn + string" where
  "chmod_permission dirname permission =
     (if endswith_any dirname [''bin'', ''sbin'', ''libexec''] then
        (case py_int permission of
           None \<Rightarrow> Inl ValueError
         | Some v \<Rightarrow> Inr (if v < 755 then ''100755'' else permission))
      else Inr permission)"

text \<open>Lines 133--156, the body of the file loop.\<close>

definition sync_file :: "env \<Rightarrow> string \<Rightarrow> string \<Rightarrow> step" where
  "sync_file e work file =
     (let permission = last3 (oct (lstat_mode e file));
          path = relpath e file (work @ ''/ramdisk'');
          dirname = os_dirname path;
          path = (if \<not> startswith path ''/'' then ''/'' @ path else path)
      in if isdir e file then skip
         else
           (case chmod_permission dirname permission of
              Inl exn \<Rightarrow> raise exn
            | Inr permission \<Rightarrow>
                seq [
                  (if islink e file then
                     (let symlink = readlink e file
                      in run e [''hfsplus'', work @ ''/ramdisk.dmg'', ''link'', path, symlink] True)
                   else
                     run e [''hfsplus'', work @ ''/ramdisk.dmg'', ''add'', file, path] True),
                  run e [''hfsplus'', work @ ''/ramdisk.dmg'', ''chmod'', permission, path] True
                ]))"

definition linux_hfsplus_sync :: "env \<Rightarrow> string \<Rightarrow> step" where
  "linux_hfsplus_sync e work =
     (if \<not> (path_exists e (work @ ''/ramdisk'') \<and> path_exists e (work @ ''/ramdisk.dmg'')) then
        seq [
          print_error (''Missing '' @ work @ ''/ramdisk or '' @ work @ ''/ramdisk.dmg (this is a bug)''),
          sys_exit 1
        ]
      else
        seq [
          seq (map (sync_directory e work) (glob e (work @ ''/ramdisk/*/**/''))),
          seq (map (sync_file e work) (glob e (work @ ''/ramdisk/**'')))
        ])"


subsection \<open>What the synthesis is expected to issue\<close>

text \<open>
  The commands one run of the synthesis should hand to \<^verbatim>\<open>hfsplus\<close>, written down from the
  staged tree alone, with no reference to how any command ends: a \<^verbatim>\<open>mkdir\<close> for every
  directory of the first walk; for every entry of the second walk that is not a directory,
  a \<^verbatim>\<open>link\<close> (a symbolic link) or an \<^verbatim>\<open>add\<close> (anything else), then a \<^verbatim>\<open>chmod\<close>.
\<close>

definition dest_path :: "env \<Rightarrow> string \<Rightarrow> string \<Rightarrow> string" where
  "dest_path e work file =
     (let path = relpath e file (work @ ''/ramdisk'')
      in if \<not> startswith path ''/'' then ''/'' @ path else path)"

definition effective_permission :: "string \<Rightarrow> nat \<Rightarrow> string" where
  "effective_permission dirname mode =
     (if endswith_any dirname [''bin'', ''sbin'', ''libexec''] \<and> mode mod 512 < 493
      then ''100755'' else last3 (oct mode))"

definition directory_commands :: "env \<Rightarrow> string \<Rightarrow> string \<Rightarrow> string list list" where
  "directory_commands e work directory =
     [[''hfsplus'', work @ ''/ramdisk.dmg'', ''mkdir'', dest_path e work directory]]"

definition file_commands :: "env \<Rightarrow> string \<Rightarrow> string \<Rightarrow> string list list" where
  "file_commands e work file =
     (if isdir e file then []
      else
        [ (if islink e file
           then [''hfsplus'', work @ ''/ramdisk.dmg'', ''link'', dest_path e work file, readlink e file]
           else [''hfsplus'', work @ ''/ramdisk.dmg'', ''add'', file, dest_path e work file]),
          [''hfsplus'', work @ ''/ramdisk.dmg'', ''chmod'',
             effective_permission (os_dirname (relpath e file (work @ ''/ramdisk''))) (lstat_mode e file),
             dest_path e work file] ])"

definition sync_commands :: "env \<Rightarrow> string \<Rightarrow> string list list" where
  "sync_commands e work =
     concat (map (directory_commands e work) (glob e (work @ ''/ramdisk/*/**/'')))
     @ concat (map (file_commands e work) (glob e (work @ ''/ramdisk/**'')))"

text \<open>A step that always returns normally, having run exactly the given commands.\<close>

definition issues :: "step \<Rightarrow> string list list \<Rightarrow> bool" where
  "issues f cmds =
     (\<forall>s. \<exists>s'. f s = Ok () s' \<and> subprocesses (trace s') = subprocesses (trace s) @ cmds)"

text \<open>A step only ever adds to the history; a result whose history starts with a given list.\<close>

definition extends :: "step \<Rightarrow> bool" where
  "extends f = (\<forall>s. prefix (trace s) (trace (state_of (f s))))"

definition reaches :: "event list \<Rightarrow> 'a result \<Rightarrow> bool" where
  "reaches t r = prefix t (trace (state_of r))"


section \<open>Small effects used by the two flows\<close>

definition os_mkdir :: "string \<Rightarrow> step" where
  "os_mkdir path = emit (MkDir path)"

text \<open>\<^verbatim>\<open>atexit.register(cleanup, work)\<close> and \<^verbatim>\<open>atexit.unregister(cleanup)\<close>.\<close>

definition atexit_register :: "string \<Rightarrow> step" where
  "atexit_register work s = Ok () (s\<lparr>atexit := atexit s @ [work]\<rparr>)"

definition atexit_unregister :: step where
  "atexit_unregister s = Ok () (s\<lparr>atexit := []\<rparr>)"

text \<open>\<^verbatim>\<open>f'{work}/' + name\<close> where \<open>name\<close> is what \<^verbatim>\<open>get_comp\<close> returned: adding \<^verbatim>\<open>None\<close> to a
  string raises \<^verbatim>\<open>TypeError\<close>. The continuation receives the path.\<close>

definition with_path :: "string \<Rightarrow> string option \<Rightarrow> (string \<Rightarrow> step) \<Rightarrow> step" where
  "with_path work name body =
     (case name of None \<Rightarrow> raise TypeError | Some n \<Rightarrow> body (work @ ''/'' @ n))"

text \<open>\<^verbatim>\<open>with open(path, 'wb') as f: f.write(execute(arguments))\<close>.\<close>

definition write_output :: "env \<Rightarrow> string \<Rightarrow> string list \<Rightarrow> step" where
  "write_output e path arguments s =
     and_then (execute e arguments False s) (\<lambda>out. emit (WriteFile path out))"

text \<open>\<^verbatim>\<open>if extra_ramdisk: ...\<close> for a value that is a string or \<^verbatim>\<open>None\<close>.\<close>

definition if_given :: "string option \<Rightarrow> (string \<Rightarrow> step) \<Rightarrow> step" where
  "if_given v body = (case v of None \<Rightarrow> skip | Some x \<Rightarrow> if truthy x then body x else skip)"

text \<open>Lines 200--207 and 433--439: unpack the operator's archive into the staging tree and
  grow the image.\<close>

definition unpack_extra_ramdisk :: "env \<Rightarrow> string \<Rightarrow> string \<Rightarrow> step" where
  "unpack_extra_ramdisk e work extra_ramdisk =
     seq [
       print_info ''Extracting custom ramdisk tar-ball'',
       run e [''tar'', ''-C'', work @ ''/ramdisk/'', ''-xf'', extra_ramdisk] False,
       (if LINUX e then run e [''hfsplus'', work @ ''/ramdisk.dmg'', ''grow'', ''500000000''] False
        else run e [''hdiutil'', ''resize'', ''-size'', ''5120MB'', work @ ''/ramdisk.dmg''] False)
     ]"


section \<open>RestoreFlow: \<^verbatim>\<open>prep_restore\<close> (lines 158--317)\<close>

text \<open>Lines 180--198: unwrap the ramdisk and get at its two executables.\<close>

definition restore_mount :: "env \<Rightarrow> string \<Rightarrow> string \<Rightarrow> step" where
  "restore_mount e work ramdisk_path =
     seq [
       print_info ''Extracting RamDisk'',
       run e [''img4'', ''-i'', work @ ''/'' @ ramdisk_path, ''-o'', work @ ''/ramdisk.dmg''] False,
       print_info ''Mounting RamDisk'',
       (if LINUX e then
          seq [
            os_mkdir (work @ ''/ramdisk/usr/sbin/''),
            os_mkdir (work @ ''/ramdisk/usr/local/bin/''),
            run e [''hfsplus'', work @ ''/ramdisk.dmg'', ''extract'', ''/usr/sbin/asr'',
                   work @ ''/ramdisk/usr/sbin/asr''] False,
            run e [''hfsplus'', work @ ''/ramdisk.dmg'', ''extract'', ''/usr/local/bin/restored_external'',
                   work @ ''/ramdisk/usr/local/bin/restored_external''] False,
            run e [''hfsplus'', work @ ''/ramdisk.dmg'', ''rm'', ''/usr/sbin/asr''] False,
            run e [''hfsplus'', work @ ''/ramdisk.dmg'', ''rm'', ''/usr/local/bin/restored_external''] False
          ]
        else
          seq [
            print_info ''Mounting RamDisk'',
            run e [''hdiutil'', ''attach'', work @ ''/ramdisk.dmg'', ''-mountpoint'', work @ ''/ramdisk''] False
          ])
     ]"

text \<open>Lines 209--226: patch \<^verbatim>\<open>asr\<close>, keep its entitlements, write it back to the staging
  tree.\<close>

definition restore_patch_asr :: "env \<Rightarrow> string \<Rightarrow> step" where
  "restore_patch_asr e work =
     seq [
       print_info ''Patching ASR in the RamDisk'',
       run e [''asr64_patcher'', work @ ''/ramdisk/usr/sbin/asr'', work @ ''/patched_asr''] False,
       print_info ''Extracting ASR Ents'',
       write_output e (work @ ''/asr.plist'') [''ldid'', ''-e'', work @ ''/ramdisk/usr/sbin/asr''],
       print_info ''Resigning ASR'',
       run e [''ldid'', ''-S'' @ work @ ''/asr.plist'', work @ ''/patched_asr''] False,
       print_info ''Chmoding ASR'',
       run e [''chmod'', ''-R'', ''755'', work @ ''/patched_asr''] False,
       print_info ''Copying Patched ASR back to the RamDisk'',
       run e [''cp'', work @ ''/patched_asr'', work @ ''/ramdisk/usr/sbin/asr''] False
     ]"

text \<open>Lines 228--247: the same for \<^verbatim>\<open>restored_external\<close>, unless \<^verbatim>\<open>legacy\<close>.\<close>

definition restore_patch_restored_external :: "env \<Rightarrow> string \<Rightarrow> bool \<Rightarrow> step" where
  "restore_patch_restored_external e work legacy =
     (if legacy then print_info ''Legacy mode, skipping restored_external''
      else
        seq [
          print_info ''Patching Restored External'',
          run e [''restored_external64_patcher'', work @ ''/ramdisk/usr/local/bin/restored_external'',
                 work @ ''/restored_external_patched''] False,
          print_info ''Extracting Restored External Ents'',
          write_output e (work @ ''/restored_external.plist'')
            [''ldid'', ''-e'', work @ ''/ramdisk/usr/local/bin/restored_external''],
          print_info ''Resigning Restored External'',
          run e [''ldid'', ''-S'' @ work @ ''/restored_external.plist'',
                 work @ ''/restored_external_patched''] False,
          print_info ''Chmoding Restored External'',
          run e [''chmod'', ''-R'', ''755'', work @ ''/restored_external_patched''] False,
          print_info ''Copying Patched Restored External back to the RamDisk'',
          run e [''cp'', work @ ''/restored_external_patched'',
                 work @ ''/ramdisk/usr/local/bin/restored_external''] False
        ])"

text \<open>Lines 249--266: put the staging tree back into the image and wrap the image.\<close>

definition restore_seal :: "env \<Rightarrow> string \<Rightarrow> string option \<Rightarrow> step" where
  "restore_seal e work extra_ramdisk =
     seq [
       print_info ''Detaching RamDisk'',
       (if LINUX e then
          seq [
            if_given extra_ramdisk (\<lambda>_. linux_hfsplus_sync e work),
            run e [''hfsplus'', work @ ''/ramdisk.dmg'', ''add'', work @ ''/ramdisk/usr/sbin/asr'',
                   ''/usr/sbin/asr''] False,
            run e [''hfsplus'', work @ ''/ramdisk.dmg'', ''add'',
                   work @ ''/ramdisk/usr/local/bin/restored_external'',
                   ''/usr/local/bin/restored_external''] False,
            run e [''hfsplus'', work @ ''/ramdisk.dmg'', ''chmod'', ''100755'', ''/usr/sbin/asr''] False,
            run e [''hfsplus'', work @ ''/ramdisk.dmg'', ''chmod'', ''100755'',
                   ''/usr/local/bin/restored_external''] False
          ]
        else run e [''hdiutil'', ''detach'', work @ ''/ramdisk''] False),
       print_info ''Creating RamDisk'',
       run e [sys_executable e, ''-m'', ''pyimg4'', ''im4p'', ''create'', ''-i'', work @ ''/ramdisk.dmg'',
              ''-o'', work @ ''/ramdisk.im4p'', ''-f'', ''rdsk''] False
     ]"

text \<open>Lines 267--289: the kernel. \<open>kernelcache\<close> is what
  \<^verbatim>\<open>manifest.get_comp(boardconfig, 'RestoreKernelCache')\<close> returned on line 268.\<close>

definition restore_kernel :: "env \<Rightarrow> string \<Rightarrow> string option \<Rightarrow> bool \<Rightarrow> step" where
  "restore_kernel e work kernelcache kpp =
     seq [
       print_info ''Extracting Kernel'',
       with_path work kernelcache (\<lambda>kernel_path.
         run e ([sys_executable e, ''-m'', ''pyimg4'', ''im4p'', ''extract'', ''-i'', kernel_path,
                 ''-o'', work @ ''/kcache.raw'']
                @ (if kpp then [''--extra'', work @ ''/kpp.bin''] else [])) False),
       print_info ''Patching Kernel'',
       run e [''Kernel64Patcher'', work @ ''/kcache.raw'', work @ ''/krnl.patched'', ''-f'', ''-a''] False,
       print_info ''Rebuilding Kernel'',
       run e ([sys_executable e, ''-m'', ''pyimg4'', ''im4p'', ''create'', ''-i'', work @ ''/krnl.patched'',
               ''-o'', work @ ''/krnl.im4p'', ''-f'', ''rkrn'', ''--lzss'']
              @ (if kpp then [''--extra'', work @ ''/kpp.bin''] else [])) False
     ]"

text \<open>\<^verbatim>\<open>' '.join(arguments)\<close>.\<close>

fun join_space :: "string list \<Rightarrow> string" where
  "join_space [] = []"
| "join_space [a] = a"
| "join_space (a # b # cs) = a @ '' '' @ join_space (b # cs)"

text \<open>Lines 291--317: prune, move the working directory beside the program, print and
  record the restore command, offer to run it.\<close>

definition restore_finish :: "env \<Rightarrow> string \<Rightarrow> string \<Rightarrow> string \<Rightarrow> bool \<Rightarrow> step" where
  "restore_finish e work0 ipsw blob skip_baseband =
     (let work = realpath e (ROOT e @ ''/'' @ os_basename work0);
          futurerestore_args =
            [''futurerestore'', ''-t'', blob, ''--use-pwndfu'', ''--skip-blob'',
             ''--rdsk'', work @ ''/ramdisk.im4p'', ''--rkrn'', work @ ''/krnl.im4p'', ''--latest-sep'',
             (if skip_baseband then ''--no-baseband'' else ''--latest-baseband''), ipsw];
          futurerestore_args_string = join_space futurerestore_args;
          ask = input_line e ''Would you like to restore now? [Yy/Nn]: ''
      in seq [
           cleanup_trim e work0 ''im4p'',
           print_info ''Moving files'',
           emit (Move work0 (ROOT e)),
           print_info (''Done! Files moved to '' @ [CHR 0x22] @ work @ [CHR 0x22]),
           print_info ''You can restore the device anytime by running the following command with the device in a pwndfu state:'',
           emit (Stdout futurerestore_args_string),
           emit (WriteFile (work @ ''/restore.command'') futurerestore_args_string),
           emit (Input ''Would you like to restore now? [Yy/Nn]: ''),
           (if ask = ''y'' \<or> ask = ''Y'' then run e futurerestore_args False else skip),
           atexit_unregister
         ])"

definition prep_restore ::
  "env \<Rightarrow> string \<Rightarrow> string \<Rightarrow> string \<Rightarrow> bool \<Rightarrow> bool \<Rightarrow> bool \<Rightarrow> string option \<Rightarrow> step" where
  "prep_restore e ipsw blob boardconfig kpp legacy skip_baseband extra_ramdisk =
     (let work = mkdtemp e ''restore-''
      in seq [
           os_mkdir (work @ ''/ramdisk''),
           atexit_register work,
           print_info ''Extracting IPSW'',
           emit (ExtractAll ipsw work),
           (case read_manifest e (work @ ''/BuildManifest.plist'') of
              None \<Rightarrow> raise ManifestParseError
            | Some manifest \<Rightarrow>
                (case get_comp manifest boardconfig ''RestoreRamDisk'' of
                   None \<Rightarrow>
                     seq [print_error ''Error: BoardConfig was not recognized'', sys_exit 1]
                 | Some ramdisk_path \<Rightarrow>
                     seq [
                       restore_mount e work ramdisk_path,
                       if_given extra_ramdisk (unpack_extra_ramdisk e work),
                       restore_patch_asr e work,
                       restore_patch_restored_external e work legacy,
                       restore_seal e work extra_ramdisk,
                       restore_kernel e work (get_comp manifest boardconfig ''RestoreKernelCache'') kpp,
                       restore_finish e work ipsw blob skip_baseband
                     ]))
         ])"


section \<open>BootFlow: \<^verbatim>\<open>prep_boot\<close> (lines 319--466)\<close>

text \<open>Lines 343--374: the two loaders. \<open>ibss\<close> and \<open>ibec\<close> are what \<^verbatim>\<open>get_comp\<close> returned on
  lines 345 and 346.\<close>

definition boot_loaders ::
  "env \<Rightarrow> string \<Rightarrow> string \<Rightarrow> string option \<Rightarrow> string option \<Rightarrow>
   string \<times> string \<times> string \<times> string \<Rightarrow> string \<Rightarrow> step" where
  "boot_loaders e work blob ibss ibec keys boot_arguments =
     (case keys of (ibss_iv, ibss_key, ibec_iv, ibec_key) \<Rightarrow>
      seq [
        print_info ''Getting IBSS and IBEC'',
        print_info ''Decrypting IBSS'',
        with_path work ibss (\<lambda>ibss_path.
          run e [''img4'', ''-i'', ibss_path, ''-o'', work @ ''/ibss.dmg'', ''-k'', ibss_iv @ ibss_key] False),
        print_info ''Decrypting IBEC'',
        with_path work ibec (\<lambda>ibec_path.
          run e [''img4'', ''-i'', ibec_path, ''-o'', work @ ''/ibec.dmg'', ''-k'', ibec_iv @ ibec_key] False),
        print_info ''Patching IBSS'',
        run e [''iBoot64Patcher'', work @ ''/ibss.dmg'', work @ ''/ibss.patched''] False,
        print_info ''Patching IBEC'',
        run e [''iBoot64Patcher'', work @ ''/ibec.dmg'', work @ ''/ibec.patched'', ''-n'', ''-b'',
               ''-v '' @ boot_arguments] False,
        print_info ''Converting BLOB to IM4M'',
        run e [''img4tool'', ''-e'', ''-s'', blob, ''-m'', ''IM4M''] False,
        print_info ''Converting IBSS to IMG4'',
        run e [''img4'', ''-i'', work @ ''/ibss.patched'', ''-o'', work @ ''/ibss.img4'', ''-M'', ''IM4M'',
               ''-A'', ''-T'', ''ibss''] False,
        print_info ''Converting IBEC to IMG4'',
        run e [''img4'', ''-i'', work @ ''/ibec.patched'', ''-o'', work @ ''/ibec.img4'', ''-M'', ''IM4M'',
               ''-A'', ''-T'', ''ibec''] False
      ])"

text \<open>Lines 376--389: device tree and trust cache. \<open>trustcache\<close> is
  \<^verbatim>\<open>get_comp(boardconfig, 'StaticTrustCache') if not legacy else None\<close>, \<open>devicetree\<close> is
  \<^verbatim>\<open>get_comp(boardconfig, 'DeviceTree')\<close>.\<close>

definition boot_devicetree ::
  "env \<Rightarrow> string \<Rightarrow> string option \<Rightarrow> string option \<Rightarrow> bool \<Rightarrow> step" where
  "boot_devicetree e work trustcache devicetree legacy =
     seq [
       print_info ''Getting Device Tree and TrustCache'',
       print_info ''Signing Device Tree'',
       with_path work devicetree (\<lambda>devicetree_path.
         run e [''img4'', ''-i'', devicetree_path, ''-o'', work @ ''/devicetree.img4'', ''-M'', ''IM4M'',
                ''-T'', ''rdtr''] False),
       (if \<not> legacy then
          seq [
            print_info ''Signing Trust Cache'',
            with_path work trustcache (\<lambda>trustcache_path.
              run e [''img4'', ''-i'', trustcache_path, ''-o'', work @ ''/trustcache.img4'', ''-M'', ''IM4M'',
                     ''-T'', ''rtsc''] False)
          ]
        else skip)
     ]"

text \<open>Lines 391--420: the kernel. \<open>kernelcache\<close> is what
  \<^verbatim>\<open>manifest.get_comp(boardconfig, 'KernelCache')\<close> returned on line 393.\<close>

definition boot_kernel ::
  "env \<Rightarrow> string \<Rightarrow> string option \<Rightarrow> bool \<Rightarrow> string option \<Rightarrow> step" where
  "boot_kernel e work kernelcache kpp extra_ramdisk =
     seq [
       print_info ''Getting Kernel Cache'',
       print_info ''Extracting Kernel'',
       with_path work kernelcache (\<lambda>kernel_path.
         run e ([sys_executable e, ''-m'', ''pyimg4'', ''im4p'', ''extract'', ''-i'', kernel_path,
                 ''-o'', work @ ''/kcache.raw'']
                @ (if kpp then [''--extra'', work @ ''/kpp.bin''] else [])) False),
       print_info ''Patching Kernel'',
       run e [''Kernel64Patcher'', work @ ''/kcache.raw'', work @ ''/krnlboot.patched'', ''-f'',
              (if truthy_opt extra_ramdisk then ''-a'' else '''')] False,
       print_info ''Converting Kernel'',
       run e ([sys_executable e, ''-m'', ''pyimg4'', ''im4p'', ''create'', ''-i'', work @ ''/krnlboot.patched'',
               ''-o'', work @ ''/krnlboot.im4p'', ''-f'', ''rkrn'', ''--lzss'']
              @ (if kpp then [''--extra'', work @ ''/kpp.bin''] else [])) False,
       print_info ''Signing Kernel'',
       run e [sys_executable e, ''-m'', ''pyimg4'', ''img4'', ''create'', ''-p'', work @ ''/krnlboot.im4p'',
              ''-o'', work @ ''/krnlboot.img4'', ''-m'', ''IM4M''] False
     ]"

text \<open>Lines 422--449: the auxiliary ramdisk, when an archive was given.\<close>

definition boot_ramdisk ::
  "env \<Rightarrow> string \<Rightarrow> BuildManifest \<Rightarrow> string \<Rightarrow> string \<Rightarrow> step" where
  "boot_ramdisk e work manifest boardconfig extra_ramdisk =
     (case get_comp manifest boardconfig ''RestoreRamDisk'' of
        None \<Rightarrow> seq [print_error ''Error: BoardConfig was not recognized'', sys_exit 1]
      | Some ramdisk_path \<Rightarrow>
          seq [
            print_info ''Extracting RamDisk'',
            run e [''img4'', ''-i'', work @ ''/'' @ ramdisk_path, ''-o'', work @ ''/ramdisk.dmg''] False,
            unpack_extra_ramdisk e work extra_ramdisk,
            print_info ''Detaching RamDisk'',
            (if LINUX e then linux_hfsplus_sync e work
             else run e [''hdiutil'', ''detach'', work @ ''/ramdisk''] False),
            print_info ''Creating RamDisk'',
            run e [''img4'', ''-i'', work @ ''/ramdisk.dmg'', ''-o'', work @ ''/ramdisk.img4'', ''-M'', ''IM4M'',
                   ''-A'', ''-T'', ''rdsk''] False
          ])"

text \<open>Lines 451--466.\<close>

definition boot_finish :: "env \<Rightarrow> string \<Rightarrow> bool \<Rightarrow> step" where
  "boot_finish e work0 kpp =
     (let work = realpath e (ROOT e @ ''/'' @ os_basename work0)
      in seq [
           cleanup_trim e work0 ''img4'',
           print_info ''Moving files'',
           emit (Move work0 (ROOT e)),
           print_info (''Done! Files moved to '' @ [CHR 0x22] @ work @ [CHR 0x22]),
           print_info ''You can boot the restored device anytime by running the following command with the device in a pwndfu state:'',
           emit (Stdout (realpath e (ROOT e) @ ''/scripts/'' @ (if kpp then ''boot.sh'' else ''boot-A10plus.sh''))),
           print_info (''Make sure to `cd` into '' @ [CHR 0x22] @ work @ [CHR 0x22] @ '' before running!''),
           atexit_unregister
         ])"

definition prep_boot ::
  "env \<Rightarrow> string \<Rightarrow> string \<Rightarrow> string \<Rightarrow> bool \<Rightarrow> string option \<Rightarrow> bool \<Rightarrow> string option \<Rightarrow> string \<Rightarrow> step"
  where
  "prep_boot e ipsw blob boardconfig kpp identifier legacy extra_ramdisk boot_arguments =
     (let work = mkdtemp e ''boot-''
      in seq [
           os_mkdir (work @ ''/ramdisk''),
           atexit_register work,
           print_info ''Unzipping IPSW'',
           emit (ExtractAll ipsw work),
           (case read_manifest e (work @ ''/BuildManifest.plist'') of
              None \<Rightarrow> raise ManifestParseError
            | Some manifest \<Rightarrow>
                seq [
                  print_info ''Getting ProductBuildVersion'',
                  (case productBuildVersion manifest of
                     None \<Rightarrow> raise ManifestFieldMissing
                   | Some productbuildversion \<Rightarrow>
                       (case get_keys e identifier boardconfig productbuildversion of
                          (ibss_iv, ibss_key, ibec_iv, ibec_key) \<Rightarrow>
                          seq [
                            (if \<not> (truthy ibss_iv \<and> truthy ibss_key \<and> truthy ibec_iv \<and> truthy ibec_key)
                             then print_error ''Possible incorrect identifier or boardconfig''
                             else skip),
                            boot_loaders e work blob
                              (get_comp manifest boardconfig ''iBSS'')
                              (get_comp manifest boardconfig ''iBEC'')
                              (ibss_iv, ibss_key, ibec_iv, ibec_key) boot_arguments,
                            boot_devicetree e work
                              (if \<not> legacy then get_comp manifest boardconfig ''StaticTrustCache'' else None)
                              (get_comp manifest boardconfig ''DeviceTree'') legacy,
                            boot_kernel e work (get_comp manifest boardconfig ''KernelCache'') kpp
                              extra_ramdisk,
                            if_given extra_ramdisk (boot_ramdisk e work manifest boardconfig),
                            boot_finish e work kpp
                          ]))
                ])
         ])"


section \<open>The entry point: \<^verbatim>\<open>main\<close> (lines 73--86 and 468--533)\<close>

definition program_list :: "env \<Rightarrow> string list" where
  "program_list e =
     [''futurerestore'', ''img4tool'', ''Kernel64Patcher'', ''iBoot64Patcher'', ''ldid'',
      ''asr64_patcher'', ''restored_external64_patcher'',
      (if LINUX e then ''hfsplus'' else ''hdiutil'')]"

definition check_for_dependencies :: "env \<Rightarrow> step" where
  "check_for_dependencies e =
     seq (map (\<lambda>prog.
            if \<not> which e prog then
              seq [print_error ([CHR 0x22] @ prog @ [CHR 0x22] @ '' not found, please install it.''),
                   sys_exit 1]
            else skip)
          (program_list e))"

text \<open>The parsed command line (\<^verbatim>\<open>parser.parse_args()\<close>).\<close>

record args =
  arg_ipsw :: string
  arg_blob :: string
  arg_boardconfig :: string
  arg_kpp :: bool
  arg_identifier :: "string option"
  arg_legacy :: bool
  arg_skip_baseband :: bool
  arg_extra_ramdisk :: "string option"
  arg_boot_arguments :: "string option"
  arg_boot :: bool
  arg_restore :: bool

definition fail_with :: "string \<Rightarrow> step" where
  "fail_with message = seq [print_error message, sys_exit 1]"

definition main :: "env \<Rightarrow> args \<Rightarrow> step" where
  "main e a =
     seq [
       check_for_dependencies e,
       (let restore = arg_restore a;
            boot = arg_boot a;
            ipsw = realpath e (arg_ipsw a);
            blob = realpath e (arg_blob a);
            boardconfig = lower (arg_boardconfig a);
            kpp = arg_kpp a;
            legacy = arg_legacy a;
            skip_baseband = arg_skip_baseband a;
            extra_ramdisk =
              (case arg_extra_ramdisk a of
                 None \<Rightarrow> None
               | Some x \<Rightarrow> if truthy x then Some (realpath e x) else None);
            boot_arguments =
              (case arg_boot_arguments a of
                 None \<Rightarrow> ''''
               | Some x \<Rightarrow> if truthy x then x else '''');
            identifier = arg_identifier a
        in seq [
             (if \<not> path_exists e ipsw then
                fail_with (''IPSW '' @ [CHR 0x22] @ ipsw @ [CHR 0x22] @ '' doesn'' @ [CHR 0x27] @ ''t exist'')
              else skip),
             (if \<not> path_exists e blob then
                fail_with (''Blob '' @ [CHR 0x22] @ blob @ [CHR 0x22] @ '' doesn'' @ [CHR 0x27] @ ''t exist'')
              else skip),
             (if boot \<and> \<not> truthy_opt identifier then
                fail_with ''You need to specify an identifier (--identifier)''
              else skip),
             if_given extra_ramdisk (\<lambda>x.
               if \<not> path_exists e x \<or> \<not> endswith x ''.tar.gz'' then
                 fail_with ''Extra ramdisk must be in the $file.tar.gz format''
               else skip),
             (if restore then
                prep_restore e ipsw blob boardconfig kpp legacy skip_baseband extra_ramdisk
              else if boot then
                prep_boot e ipsw blob boardconfig kpp identifier legacy extra_ramdisk boot_arguments
              else
                seq [print_error ''No mode selected (this is a bug)'',
                     emit (Stdout ''Namespace(...)''),
                     sys_exit 1]),
             sys_exit 0
           ])
     ]"

text \<open>
  A whole run of the program: \<^verbatim>\<open>main()\<close> from an empty history, then the handlers
  registered with \<^verbatim>\<open>atexit\<close>, that is \<^verbatim>\<open>cleanup\<close> (lines 52--60), which removes the
  directory unless \<^verbatim>\<open>DEBUG\<close> is set. The result is the exit status and the whole history.
\<close>

definition cleanup :: "env \<Rightarrow> string \<Rightarrow> event list" where
  "cleanup e directory = (if DEBUG e then [] else [RmTree directory])"

definition exit_status :: "unit result \<Rightarrow> int" where
  "exit_status r =
     (case r of Ok _ _ \<Rightarrow> 0 | Halt (SysExit n) _ \<Rightarrow> n | Halt (Uncaught _) _ \<Rightarrow> 1)"

definition program :: "env \<Rightarrow> args \<Rightarrow> int \<times> event list" where
  "program e a =
     (let r = main e a \<lparr>trace = [], atexit = []\<rparr>;
          s = state_of r
      in (exit_status r, trace s @ concat (map (cleanup e) (rev (atexit s)))))"


section \<open>Board strings that differ only in the case of ASCII letters\<close>

text \<open>Two characters are the same letter when they are equal, or one is an upper-case
  ASCII letter and the other is the character 32 code points above it.\<close>

definition same_letter :: "char \<Rightarrow> char \<Rightarrow> bool" where
  "same_letter c d =
     (c = d \<or> (is_upper c \<and> (of_char d :: nat) = of_char c + 32)
            \<or> (is_upper d \<and> (of_char c :: nat) = of_char d + 32))"

definition equal_up_to_case :: "string \<Rightarrow> string \<Rightarrow> bool" where
  "equal_up_to_case a b = list_all2 same_letter a b"


section \<open>A run that stops on a missing component\<close>

text \<open>The state after some further events; a step that writes some lines and then ends the
  run with an uncaught \<^verbatim>\<open>TypeError\<close>, as \<^verbatim>\<open>f'{work}/' + None\<close> does.\<close>

definition logged :: "event list \<Rightarrow> state \<Rightarrow> state" where
  "logged evs s = s\<lparr>trace := trace s @ evs\<rparr>"

definition type_error_after :: "event list \<Rightarrow> step" where
  "type_error_after evs s = Halt (Uncaught TypeError) (logged evs s)"

text \<open>The state of a BootFlow run when its first stage starts (lines 320--341): the
  staging directory is registered for removal and made, the bundle unpacked, the version
  read, and the key warning printed when a key is missing. The state of a RestoreFlow run
  when the ramdisk stage starts (lines 159--175).\<close>

definition boot_started :: "env \<Rightarrow> string \<Rightarrow> string \<times> string \<times> string \<times> string \<Rightarrow> state \<Rightarrow> state" where
  "boot_started e ipsw keys s =
     (case keys of (ibss_iv, ibss_key, ibec_iv, ibec_key) \<Rightarrow>
        s\<lparr>atexit := atexit s @ [mkdtemp e ''boot-''],
          trace := trace s @
            [MkDir (mkdtemp e ''boot-'' @ ''/ramdisk''),
             Stdout ''[*] Info: Unzipping IPSW'',
             ExtractAll ipsw (mkdtemp e ''boot-''),
             Stdout ''[*] Info: Getting ProductBuildVersion'']
            @ (if \<not> (truthy ibss_iv \<and> truthy ibss_key \<and> truthy ibec_iv \<and> truthy ibec_key)
               then [Stderr ''[!] Error: Possible incorrect identifier or boardconfig'']
               else [])\<rparr>)"

definition restore_started :: "env \<Rightarrow> string \<Rightarrow> state \<Rightarrow> state" where
  "restore_started e ipsw s =
     s\<lparr>atexit := atexit s @ [mkdtemp e ''restore-''],
       trace := trace s @
         [MkDir (mkdtemp e ''restore-'' @ ''/ramdisk''),
          Stdout ''[*] Info: Extracting IPSW'',
          ExtractAll ipsw (mkdtemp e ''restore-'')]\<rparr>"

section \<open>Concrete environments\<close>

definition example_env :: env where
  "example_env =
     \<lparr> LINUX = True, DEBUG = False, ROOT = ''/opt/sunstorm'', sys_executable = ''/usr/bin/python3'',
       subprocess_run = (\<lambda>history arguments. (0, [])),
       mkdtemp = (\<lambda>p. ''/tmp/'' @ p @ ''k3x9''),
       path_exists = (\<lambda>p. True),
       glob = (\<lambda>pattern. []),
       relpath = (\<lambda>p start. drop (Suc (length start)) p),
       realpath = (\<lambda>p. p),
       lstat_mode = (\<lambda>p. 33188),
       isdir = (\<lambda>p. False), islink = (\<lambda>p. False), readlink = (\<lambda>p. []),
       which = (\<lambda>p. True),
       read_manifest = (\<lambda>p. None),
       get_keys = (\<lambda>identifier board version. ([], [], [], [])),
       input_line = (\<lambda>prompt. ''n'') \<rparr>"

definition initial :: state where
  "initial = \<lparr> trace = [], atexit = [] \<rparr>"

text \<open>A staged tree holding one file, \<^verbatim>\<open>usr/sbin/tool\<close>, of the given mode; every command
  the synthesis runs ends with the given status.\<close>

definition tool_env :: "int \<Rightarrow> nat \<Rightarrow> env" where
  "tool_env rc mode =
     example_env
       \<lparr> subprocess_run := (\<lambda>history arguments. (rc, [])),
         glob := (\<lambda>pattern.
           if pattern = ''/tmp/w/ramdisk/*/**/'' then [''/tmp/w/ramdisk/usr/'', ''/tmp/w/ramdisk/usr/sbin/'']
           else if pattern = ''/tmp/w/ramdisk/**'' then
             [''/tmp/w/ramdisk/'', ''/tmp/w/ramdisk/usr'', ''/tmp/w/ramdisk/usr/sbin'', ''/tmp/w/ramdisk/usr/sbin/tool'']
           else []),
         relpath := (\<lambda>p start.
           if p = ''/tmp/w/ramdisk/'' then ''.''
           else if p = ''/tmp/w/ramdisk/usr/'' \<or> p = ''/tmp/w/ramdisk/usr'' then ''usr''
           else if p = ''/tmp/w/ramdisk/usr/sbin/'' \<or> p = ''/tmp/w/ramdisk/usr/sbin'' then ''usr/sbin''
           else ''usr/sbin/tool''),
         lstat_mode := (\<lambda>p. if p = ''/tmp/w/ramdisk/usr/sbin/tool'' then mode else 16877),
         isdir := (\<lambda>p. p \<noteq> ''/tmp/w/ramdisk/usr/sbin/tool'') \<rparr>"

definition link_env :: env where
  "link_env =
     example_env
       \<lparr> glob := (\<lambda>pattern.
           if pattern = ''/tmp/w/ramdisk/*/**/'' then
             [''/tmp/w/ramdisk/usr/'', ''/tmp/w/ramdisk/usr/bin/'', ''/tmp/w/ramdisk/usr/bin/foo/'',
              ''/tmp/w/ramdisk/usr/lib/'']
           else if pattern = ''/tmp/w/ramdisk/**'' then
             [''/tmp/w/ramdisk/'', ''/tmp/w/ramdisk/usr'', ''/tmp/w/ramdisk/usr/bin'',
              ''/tmp/w/ramdisk/usr/bin/foo'', ''/tmp/w/ramdisk/usr/lib'']
           else []),
         relpath := (\<lambda>p start.
           if p = ''/tmp/w/ramdisk/'' then ''.''
           else if p = ''/tmp/w/ramdisk/usr/'' \<or> p = ''/tmp/w/ramdisk/usr'' then ''usr''
           else if p = ''/tmp/w/ramdisk/usr/bin/'' \<or> p = ''/tmp/w/ramdisk/usr/bin'' then ''usr/bin''
           else if p = ''/tmp/w/ramdisk/usr/lib/'' \<or> p = ''/tmp/w/ramdisk/usr/lib'' then ''usr/lib''
           else ''usr/bin/foo''),
         lstat_mode := (\<lambda>p. if p = ''/tmp/w/ramdisk/usr/bin/foo'' then 41471 else 16877),
         isdir := (\<lambda>p. True),
         islink := (\<lambda>p. p = ''/tmp/w/ramdisk/usr/bin/foo''),
         readlink := (\<lambda>p. ''../lib'') \<rparr>"

definition trim_env :: env where
  "trim_env =
     example_env
       \<lparr> glob := (\<lambda>pattern.
           if pattern = ''/tmp/w/**/*'' then
             [''/tmp/w/kcache.raw'', ''/tmp/w/ramdisk.im4p'', ''/home/user/notes.txt'', ''/tmp/w/Firmware/dfu/iBSS.im4p'']
           else []) \<rparr>"

text \<open>A manifest with two boards, and an environment whose bundle holds it.\<close>

definition d321_manifest :: BuildManifest where
  "d321_manifest =
     \<lparr> identities =
         [\<lparr> boardConfig = ''n51ap'',
             components = [(''RestoreRamDisk'', ''090-2222-200.dmg'')] \<rparr>,
          \<lparr> boardConfig = ''d321ap'',
             components =
               [(''RestoreRamDisk'', ''090-1111-100.dmg''),
                (''RestoreKernelCache'', ''kernelcache.release.d321''),
                (''KernelCache'', ''kernelcache.release.d321''),
                (''iBSS'', ''Firmware/dfu/iBSS.d321.RELEASE.im4p''),
                (''iBEC'', ''Firmware/dfu/iBEC.d321.RELEASE.im4p''),
                (''DeviceTree'', ''Firmware/all_flash/DeviceTree.d321ap.im4p'')] \<rparr>],
       productBuildVersion = Some ''15G77'' \<rparr>"

definition restore_env :: env where
  "restore_env = example_env \<lparr> read_manifest := (\<lambda>p. Some d321_manifest) \<rparr>"

definition restore_args :: args where
  "restore_args =
     \<lparr> arg_ipsw = ''/home/u/fw.ipsw'', arg_blob = ''/home/u/blob.shsh2'', arg_boardconfig = ''d321ap'',
       arg_kpp = False, arg_identifier = None, arg_legacy = False, arg_skip_baseband = False,
       arg_extra_ramdisk = None, arg_boot_arguments = None, arg_boot = False, arg_restore = True \<rparr>"

text \<open>An environment whose key service knows no key for the device (\<open>example_env\<close> answers
  with four empty values); a manifest whose board has no loader, device tree or kernel
  entry, with a key service that knows all four values; a manifest with a first-stage
  loader only.\<close>

definition nokeys_env :: env where
  "nokeys_env = example_env \<lparr> read_manifest := (\<lambda>p. Some d321_manifest) \<rparr>"

definition bare_manifest :: BuildManifest where
  "bare_manifest =
     \<lparr> identities =
         [\<lparr> boardConfig = ''d321ap'', components = [(''RestoreRamDisk'', ''090-1111-100.dmg'')] \<rparr>],
       productBuildVersion = Some ''15G77'' \<rparr>"

definition bare_env :: env where
  "bare_env =
     example_env
       \<lparr> read_manifest := (\<lambda>p. Some bare_manifest),
         get_keys := (\<lambda>identifier board version. (''a1b2'', ''c3d4'', ''e5f6'', ''0789'')) \<rparr>"

definition ibss_only_manifest :: BuildManifest where
  "ibss_only_manifest =
     \<lparr> identities =
         [\<lparr> boardConfig = ''d321ap'',
             components = [(''iBSS'', ''Firmware/dfu/iBSS.d321.RELEASE.im4p'')] \<rparr>],
       productBuildVersion = Some ''15G77'' \<rparr>"

text \<open>Manifests whose board has both loaders and nothing else, and both loaders and a
  device tree; an environment whose bundle holds the given manifest and whose key service
  knows all four values.\<close>

definition loaders_only_manifest :: BuildManifest where
  "loaders_only_manifest =
     \<lparr> identities =
         [\<lparr> boardConfig = ''d321ap'',
             components =
               [(''iBSS'', ''Firmware/dfu/iBSS.d321.RELEASE.im4p''),
                (''iBEC'', ''Firmware/dfu/iBEC.d321.RELEASE.im4p'')] \<rparr>],
       productBuildVersion = Some ''15G77'' \<rparr>"

definition no_kernel_manifest :: BuildManifest where
  "no_kernel_manifest =
     \<lparr> identities =
         [\<lparr> boardConfig = ''d321ap'',
             components =
               [(''iBSS'', ''Firmware/dfu/iBSS.d321.RELEASE.im4p''),
                (''iBEC'', ''Firmware/dfu/iBEC.d321.RELEASE.im4p''),
                (''DeviceTree'', ''Firmware/all_flash/DeviceTree.d321ap.im4p'')] \<rparr>],
       productBuildVersion = Some ''15G77'' \<rparr>"

definition bundle_env :: "BuildManifest \<Rightarrow> env" where
  "bundle_env manifest = bare_env \<lparr> read_manifest := (\<lambda>p. Some manifest) \<rparr>"

text \<open>A staging tree with two regular files of mode \<^verbatim>\<open>0644\<close> in \<^verbatim>\<open>usr/bin\<close>, \<^verbatim>\<open>.hidden\<close> and
  \<^verbatim>\<open>tool\<close>. \<^verbatim>\<open>glob\<close>, called as lines 124 and 131 call it (\<^verbatim>\<open>recursive=True\<close>, and
  \<^verbatim>\<open>include_hidden\<close> left at its default), does not yield a name that begins with a dot.\<close>

definition glob_shows :: "string \<Rightarrow> bool" where
  "glob_shows p = (\<not> startswith (os_basename p) ''.'')"

definition hidden_staged :: "string list" where
  "hidden_staged =
     [''/tmp/w/ramdisk/'', ''/tmp/w/ramdisk/usr'', ''/tmp/w/ramdisk/usr/bin'',
      ''/tmp/w/ramdisk/usr/bin/.hidden'', ''/tmp/w/ramdisk/usr/bin/tool'']"

definition hidden_env :: env where
  "hidden_env =
     example_env
       \<lparr> glob := (\<lambda>pattern.
           if pattern = ''/tmp/w/ramdisk/*/**/'' then [''/tmp/w/ramdisk/usr/'', ''/tmp/w/ramdisk/usr/bin/'']
           else if pattern = ''/tmp/w/ramdisk/**'' then filter glob_shows hidden_staged
           else []),
         relpath := (\<lambda>p start.
           if p = ''/tmp/w/ramdisk/'' then ''.''
           else if p = ''/tmp/w/ramdisk/usr/'' \<or> p = ''/tmp/w/ramdisk/usr'' then ''usr''
           else if p = ''/tmp/w/ramdisk/usr/bin/'' \<or> p = ''/tmp/w/ramdisk/usr/bin'' then ''usr/bin''
           else if p = ''/tmp/w/ramdisk/usr/bin/.hidden'' then ''usr/bin/.hidden''
           else ''usr/bin/tool''),
         lstat_mode := (\<lambda>p.
           if p = ''/tmp/w/ramdisk/usr/bin/.hidden'' \<or> p = ''/tmp/w/ramdisk/usr/bin/tool'' then 33188
           else 16877),
         isdir := (\<lambda>p. p \<noteq> ''/tmp/w/ramdisk/usr/bin/.hidden'' \<and> p \<noteq> ''/tmp/w/ramdisk/usr/bin/tool'') \<rparr>"

section \<open>Supporting lemmas\<close>

lemma oct_digits_lt: "n < 8 \<Longrightarrow> oct_digits n = [digit_char n]"
  by (subst oct_digits.simps) simp

lemma oct_digits_ge: "8 \<le> n \<Longrightarrow> oct_digits n = oct_digits (n div 8) @ [digit_char (n mod 8)]"
  by (subst oct_digits.simps) simp

lemma oct_digits_snoc: "\<exists>xs. oct_digits n = xs @ [digit_char (n mod 8)]"
  by (cases "n < 8") (simp_all add: oct_digits_lt oct_digits_ge)

lemma last3_oct:
  assumes "64 \<le> n"
  shows "last3 (oct n) = [digit_char (n div 64 mod 8), digit_char (n div 8 mod 8), digit_char (n mod 8)]"
proof -
  from assms have a: "oct_digits n = oct_digits (n div 8) @ [digit_char (n mod 8)]"
    by (intro oct_digits_ge) simp
  from assms have "8 \<le> n div 8" by simp
  then have "oct_digits (n div 8) = oct_digits (n div 8 div 8) @ [digit_char (n div 8 mod 8)]"
    by (rule oct_digits_ge)
  moreover have "n div 8 div 8 = n div 64"
    using div_mult2_eq [of n 8 8] by simp
  ultimately have b: "oct_digits (n div 8) = oct_digits (n div 64) @ [digit_char (n div 8 mod 8)]"
    by simp
  obtain xs where c: "oct_digits (n div 64) = xs @ [digit_char (n div 64 mod 8)]"
    using oct_digits_snoc by blast
  have "oct n = ''0o'' @ xs @ [digit_char (n div 64 mod 8), digit_char (n div 8 mod 8), digit_char (n mod 8)]"
    unfolding oct_def a b c by simp
  then show ?thesis
    by (simp add: last3_def)
qed

lemma digit_val_digit_char: "d < 8 \<Longrightarrow> digit_val (digit_char d) = Some d"
proof -
  assume "d < 8"
  then consider "d = 0" | "d = 1" | "d = 2" | "d = 3" | "d = 4" | "d = 5" | "d = 6" | "d = 7"
    by linarith
  then show ?thesis
    by cases (simp_all add: digit_val_def digit_char_def)
qed

lemma py_int_digits3:
  "a < 8 \<Longrightarrow> b < 8 \<Longrightarrow> c < 8 \<Longrightarrow>
   py_int [digit_char a, digit_char b, digit_char c] = Some (100 * a + 10 * b + c)"
  by (simp add: py_int_def digit_val_digit_char)

lemma py_int_last3_oct:
  assumes "64 \<le> n"
  shows "py_int (last3 (oct n)) = Some (100 * (n div 64 mod 8) + 10 * (n div 8 mod 8) + n mod 8)"
  by (simp add: last3_oct [OF assms] py_int_digits3)

lemma mod512_digits:
  fixes n :: nat
  shows "n mod 512 = 64 * (n div 64 mod 8) + 8 * (n div 8 mod 8) + n mod 8"
proof -
  have a: "n mod (64 * 8) = 64 * (n div 64 mod 8) + n mod 64"
    by (rule mod_mult2_eq)
  have b: "n mod (8 * 8) = 8 * (n div 8 mod 8) + n mod 8"
    by (rule mod_mult2_eq)
  show ?thesis using a b by simp
qed

lemma dec_lex:
  fixes a b c :: nat
  assumes "b < 8" "c < 8"
  shows "100 * a + 10 * b + c < 755 \<longleftrightarrow> a < 7 \<or> (a = 7 \<and> (b < 5 \<or> (b = 5 \<and> c < 5)))"
proof (cases "a < 7")
  case True
  then show ?thesis using assms by linarith
next
  case False
  show ?thesis
  proof (cases "a = 7")
    case True
    then show ?thesis using assms by auto
  next
    case False
    with \<open>\<not> a < 7\<close> have "8 \<le> a" by simp
    then show ?thesis by simp
  qed
qed

lemma oct_lex:
  fixes a b c :: nat
  assumes "b < 8" "c < 8"
  shows "64 * a + 8 * b + c < 493 \<longleftrightarrow> a < 7 \<or> (a = 7 \<and> (b < 5 \<or> (b = 5 \<and> c < 5)))"
proof (cases "a < 7")
  case True
  then show ?thesis using assms by linarith
next
  case False
  show ?thesis
  proof (cases "a = 7")
    case True
    then show ?thesis using assms by auto
  next
    case False
    with \<open>\<not> a < 7\<close> have "8 \<le> a" by simp
    then show ?thesis by simp
  qed
qed

lemma decimal_octal_less:
  fixes n :: nat
  shows "100 * (n div 64 mod 8) + 10 * (n div 8 mod 8) + n mod 8 < 755 \<longleftrightarrow> n mod 512 < 493"
  by (simp only: mod512_digits [of n] dec_lex oct_lex pos_mod_bound zero_less_numeral)

lemma chmod_permission_oct:
  assumes "64 \<le> n"
  shows "chmod_permission d (last3 (oct n)) =
           Inr (if endswith_any d [''bin'', ''sbin'', ''libexec''] \<and> n mod 512 < 493
                then ''100755'' else last3 (oct n))"
  using decimal_octal_less [of n]
  by (simp add: chmod_permission_def py_int_last3_oct [OF assms])

lemma subprocesses_append: "subprocesses (xs @ ys) = subprocesses xs @ subprocesses ys"
  by (induction xs rule: subprocesses.induct) simp_all

lemma issues_skip: "issues skip []"
  by (simp add: issues_def skip_def)

lemma issues_run: "issues (run e arguments True) [arguments]"
  by (simp add: issues_def run_def discard_def execute_def and_then_def Let_def
      subprocesses_append split: prod.splits)

lemma issues_seq_Cons:
  assumes "issues f c" "issues (seq fs) cs"
  shows "issues (seq (f # fs)) (c @ cs)"
  unfolding issues_def
proof
  fix s
  from assms(1) obtain s1 where f: "f s = Ok () s1"
    and t1: "subprocesses (trace s1) = subprocesses (trace s) @ c"
    unfolding issues_def by blast
  from assms(2) obtain s2 where g: "seq fs s1 = Ok () s2"
    and t2: "subprocesses (trace s2) = subprocesses (trace s1) @ cs"
    unfolding issues_def by blast
  show "\<exists>s'. seq (f # fs) s = Ok () s' \<and> subprocesses (trace s') = subprocesses (trace s) @ c @ cs"
    using f g t1 t2 by (simp add: and_then_def)
qed

lemma issues_seq_Nil: "issues (seq []) []"
  by (simp add: issues_def)

lemma issues_seq_map:
  assumes "\<And>x. x \<in> set xs \<Longrightarrow> issues (f x) (g x)"
  shows "issues (seq (map f xs)) (concat (map g xs))"
  using assms
proof (induction xs)
  case Nil
  show ?case by (simp add: issues_def)
next
  case (Cons x xs)
  have "issues (seq (f x # map f xs)) (g x @ concat (map g xs))"
    by (rule issues_seq_Cons) (simp_all add: Cons)
  then show ?case by (simp del: seq.simps)
qed

lemma issues_sync_directory: "issues (sync_directory e work d) (directory_commands e work d)"
  unfolding sync_directory_def directory_commands_def dest_path_def Let_def
  by (rule issues_run)

lemma issues_sync_file:
  assumes "64 \<le> lstat_mode e file"
  shows "issues (sync_file e work file) (file_commands e work file)"
proof (cases "isdir e file")
  case True
  then show ?thesis
    by (simp add: sync_file_def file_commands_def Let_def issues_skip)
next
  case False
  let ?perm = "effective_permission (os_dirname (relpath e file (work @ ''/ramdisk''))) (lstat_mode e file)"
  let ?first = "if islink e file
       then [''hfsplus'', work @ ''/ramdisk.dmg'', ''link'', dest_path e work file, readlink e file]
       else [''hfsplus'', work @ ''/ramdisk.dmg'', ''add'', file, dest_path e work file]"
  let ?second = "[''hfsplus'', work @ ''/ramdisk.dmg'', ''chmod'', ?perm, dest_path e work file]"
  have body: "sync_file e work file = seq [run e ?first True, run e ?second True]"
    unfolding sync_file_def dest_path_def Let_def chmod_permission_oct [OF assms]
      effective_permission_def
    using False by (simp del: seq.simps cong: if_cong)
  have "issues (seq [run e ?first True, run e ?second True]) ([?first] @ [?second] @ [])"
    by (intro issues_seq_Cons issues_run issues_seq_Nil)
  then show ?thesis
    using False by (simp add: body file_commands_def del: seq.simps)
qed

lemma issues_linux_hfsplus_sync:
  assumes "path_exists e (work @ ''/ramdisk'')" "path_exists e (work @ ''/ramdisk.dmg'')"
    and "\<And>file. file \<in> set (glob e (work @ ''/ramdisk/**'')) \<Longrightarrow> 64 \<le> lstat_mode e file"
  shows "issues (linux_hfsplus_sync e work) (sync_commands e work)"
proof -
  have d: "issues (seq (map (sync_directory e work) (glob e (work @ ''/ramdisk/*/**/''))))
             (concat (map (directory_commands e work) (glob e (work @ ''/ramdisk/*/**/''))))"
    by (rule issues_seq_map) (rule issues_sync_directory)
  have f: "issues (seq (map (sync_file e work) (glob e (work @ ''/ramdisk/**''))))
             (concat (map (file_commands e work) (glob e (work @ ''/ramdisk/**''))))"
    by (rule issues_seq_map) (rule issues_sync_file, rule assms(3))
  have "issues (seq [seq (map (sync_directory e work) (glob e (work @ ''/ramdisk/*/**/''))),
                     seq (map (sync_file e work) (glob e (work @ ''/ramdisk/**'')))])
          (concat (map (directory_commands e work) (glob e (work @ ''/ramdisk/*/**/'')))
           @ concat (map (file_commands e work) (glob e (work @ ''/ramdisk/**''))) @ [])"
    by (intro issues_seq_Cons d f issues_seq_Nil)
  then show ?thesis
    using assms(1,2) by (simp add: linux_hfsplus_sync_def sync_commands_def del: seq.simps)
qed

lemma os_dirname_tool: "os_dirname ''usr/sbin/tool'' = ''usr/sbin''"
  by (simp add: os_dirname_def rfind_sep_def rstrip_sep_def Let_def)

lemma sync_commands_tool:
  "64 \<le> mode \<Longrightarrow> sync_commands (tool_env rc mode) ''/tmp/w'' =
     [[''hfsplus'', ''/tmp/w/ramdisk.dmg'', ''mkdir'', ''/usr''],
      [''hfsplus'', ''/tmp/w/ramdisk.dmg'', ''mkdir'', ''/usr/sbin''],
      [''hfsplus'', ''/tmp/w/ramdisk.dmg'', ''add'', ''/tmp/w/ramdisk/usr/sbin/tool'', ''/usr/sbin/tool''],
      [''hfsplus'', ''/tmp/w/ramdisk.dmg'', ''chmod'',
         effective_permission ''usr/sbin'' mode, ''/usr/sbin/tool'']]"
  by (simp add: sync_commands_def tool_env_def example_env_def directory_commands_def
      file_commands_def dest_path_def startswith_def os_dirname_tool)

lemma effective_permission_0644: "effective_permission ''usr/sbin'' 33188 = ''100755''"
  by (simp add: effective_permission_def endswith_any_def endswith_def suffix_to_prefix)

lemma effective_permission_04755: "effective_permission ''usr/sbin'' 35309 = ''755''"
  by (simp add: effective_permission_def endswith_any_def endswith_def suffix_to_prefix
      last3_oct digit_char_def)

lemma directory_commands_subprocess_run:
  "directory_commands (e\<lparr>subprocess_run := outcome\<rparr>) work = directory_commands e work"
  by (rule ext) (simp add: directory_commands_def dest_path_def)

lemma file_commands_subprocess_run:
  "file_commands (e\<lparr>subprocess_run := outcome\<rparr>) work = file_commands e work"
  by (rule ext) (simp add: file_commands_def dest_path_def)

lemma sync_commands_subprocess_run [simp]:
  "sync_commands (e\<lparr>subprocess_run := outcome\<rparr>) work = sync_commands e work"
  by (simp add: sync_commands_def directory_commands_subprocess_run file_commands_subprocess_run)

lemma basename_suffix: "endswith d (os_basename d)"
  by (simp add: endswith_def os_basename_def suffix_drop)

lemma parent_name_endswith:
  assumes "os_basename d \<in> {''bin'', ''sbin'', ''libexec''}"
  shows "endswith_any d [''bin'', ''sbin'', ''libexec'']"
  using assms basename_suffix [of d] by (auto simp: endswith_any_def)

lemma os_basename_usr_sbin: "os_basename ''usr/sbin'' = ''sbin''"
  by (simp add: os_basename_def rfind_sep_def)

lemma remove_loop:
  "\<exists>removed.
     seq (map (\<lambda>fn. if startswith fn work \<and> \<not> dbg then os_remove fn else skip) file_list) s
       = Ok () (s\<lparr>trace := trace s @ map Remove removed\<rparr>) \<and>
     (\<forall>fn \<in> set removed. startswith fn work)"
proof (induction file_list arbitrary: s)
  case Nil
  have "seq (map (\<lambda>fn. if startswith fn work \<and> \<not> dbg then os_remove fn else skip) []) s
          = Ok () (s\<lparr>trace := trace s @ map Remove []\<rparr>) \<and> (\<forall>fn \<in> set []. startswith fn work)"
    by simp
  then show ?case by blast
next
  case (Cons fn file_list)
  show ?case
  proof (cases "startswith fn work \<and> \<not> dbg")
    case True
    from Cons [of "s\<lparr>trace := trace s @ [Remove fn]\<rparr>"] obtain removed where
      r: "seq (map (\<lambda>fn. if startswith fn work \<and> \<not> dbg then os_remove fn else skip) file_list)
            (s\<lparr>trace := trace s @ [Remove fn]\<rparr>)
          = Ok () (s\<lparr>trace := trace s @ [Remove fn]\<rparr>\<lparr>trace := trace (s\<lparr>trace := trace s @ [Remove fn]\<rparr>) @ map Remove removed\<rparr>)"
      and a: "\<forall>fn \<in> set removed. startswith fn work"
      by blast
    have "seq (map (\<lambda>fn. if startswith fn work \<and> \<not> dbg then os_remove fn else skip) (fn # file_list)) s
          = Ok () (s\<lparr>trace := trace s @ map Remove (fn # removed)\<rparr>)"
      using True r by (simp add: os_remove_def emit_def and_then_def)
    moreover have "\<forall>f \<in> set (fn # removed). startswith f work"
      using True a by simp
    ultimately show ?thesis by blast
  next
    case False
    from Cons [of s] obtain removed where
      r: "seq (map (\<lambda>fn. if startswith fn work \<and> \<not> dbg then os_remove fn else skip) file_list) s
          = Ok () (s\<lparr>trace := trace s @ map Remove removed\<rparr>)"
      and a: "\<forall>fn \<in> set removed. startswith fn work"
      by blast
    have "seq (map (\<lambda>fn. if startswith fn work \<and> \<not> dbg then os_remove fn else skip) (fn # file_list)) s
          = Ok () (s\<lparr>trace := trace s @ map Remove removed\<rparr>)"
      using False r by (auto simp: skip_def and_then_def)
    with a show ?thesis by blast
  qed
qed

text \<open>A symbolic link that does not lead to a directory is placed by a \<^verbatim>\<open>link\<close> command
  with its destination path and its target string.\<close>

lemma symlink_not_to_directory_linked:
  assumes "path_exists e (work @ ''/ramdisk'')" and "path_exists e (work @ ''/ramdisk.dmg'')"
    and "\<forall>f \<in> set (glob e (work @ ''/ramdisk/**'')). 64 \<le> lstat_mode e f"
    and "file \<in> set (glob e (work @ ''/ramdisk/**''))"
    and "islink e file" and "\<not> isdir e file"
  shows "\<exists>s'. linux_hfsplus_sync e work s = Ok () s' \<and>
           [''hfsplus'', work @ ''/ramdisk.dmg'', ''link'', dest_path e work file, readlink e file]
             \<in> set (subprocesses (trace s'))"
proof -
  have "issues (linux_hfsplus_sync e work) (sync_commands e work)"
    by (rule issues_linux_hfsplus_sync) (use assms(1-3) in simp_all)
  then obtain s' where r: "linux_hfsplus_sync e work s = Ok () s'"
    and t: "subprocesses (trace s') = subprocesses (trace s) @ sync_commands e work"
    unfolding issues_def by blast
  have "[''hfsplus'', work @ ''/ramdisk.dmg'', ''link'', dest_path e work file, readlink e file]
          \<in> set (file_commands e work file)"
    using assms(5,6) by (simp add: file_commands_def)
  with assms(4) have "[''hfsplus'', work @ ''/ramdisk.dmg'', ''link'', dest_path e work file, readlink e file]
          \<in> set (sync_commands e work)"
    by (auto simp: sync_commands_def)
  with r t show ?thesis by simp
qed

text \<open>An entry that the second walk yields and line 141 does not skip as a directory, whose
  parent directory is named \<^verbatim>\<open>bin\<close>, \<^verbatim>\<open>sbin\<close> or \<^verbatim>\<open>libexec\<close> and whose permission bits are
  below \<^verbatim>\<open>0755\<close> (\<open>493\<close>), gets a \<^verbatim>\<open>chmod\<close> with mode \<^verbatim>\<open>100755\<close>, whatever the external
  commands return; \<^verbatim>\<open>usr/sbin/tool\<close> of mode \<^verbatim>\<open>0644\<close> is one.\<close>

lemma visited_bin_file_escalated:
  assumes "path_exists e (work @ ''/ramdisk'')" and "path_exists e (work @ ''/ramdisk.dmg'')"
    and "\<forall>f \<in> set (glob e (work @ ''/ramdisk/**'')). 64 \<le> lstat_mode e f"
    and "file \<in> set (glob e (work @ ''/ramdisk/**''))"
    and "\<not> isdir e file"
    and "os_basename (os_dirname (relpath e file (work @ ''/ramdisk''))) \<in> {''bin'', ''sbin'', ''libexec''}"
    and "lstat_mode e file mod 512 < 493"
  shows "\<exists>s'. linux_hfsplus_sync e work s = Ok () s' \<and>
           [''hfsplus'', work @ ''/ramdisk.dmg'', ''chmod'', ''100755'', dest_path e work file]
             \<in> set (subprocesses (trace s'))"
proof -
  have "issues (linux_hfsplus_sync e work) (sync_commands e work)"
    by (rule issues_linux_hfsplus_sync) (use assms(1-3) in simp_all)
  then obtain s' where r: "linux_hfsplus_sync e work s = Ok () s'"
    and t: "subprocesses (trace s') = subprocesses (trace s) @ sync_commands e work"
    unfolding issues_def by blast
  have p: "effective_permission (os_dirname (relpath e file (work @ ''/ramdisk''))) (lstat_mode e file)
             = ''100755''"
    using parent_name_endswith [OF assms(6)] assms(7) by (simp add: effective_permission_def)
  have "[''hfsplus'', work @ ''/ramdisk.dmg'', ''chmod'', ''100755'', dest_path e work file]
          \<in> set (file_commands e work file)"
    using assms(5) by (simp add: file_commands_def p)
  with assms(4) have "[''hfsplus'', work @ ''/ramdisk.dmg'', ''chmod'', ''100755'', dest_path e work file]
          \<in> set (sync_commands e work)"
    by (auto simp: sync_commands_def)
  with r t show ?thesis by simp
qed

lemma visited_bin_file_escalated_example:
  "\<exists>s'. linux_hfsplus_sync (tool_env 0 33188) ''/tmp/w'' initial = Ok () s' \<and>
     [''hfsplus'', ''/tmp/w/ramdisk.dmg'', ''chmod'', ''100755'', ''/usr/sbin/tool'']
       \<in> set (subprocesses (trace s'))"
proof -
  have "\<exists>s'. linux_hfsplus_sync (tool_env 0 33188) ''/tmp/w'' initial = Ok () s' \<and>
           [''hfsplus'', ''/tmp/w'' @ ''/ramdisk.dmg'', ''chmod'', ''100755'',
            dest_path (tool_env 0 33188) ''/tmp/w'' ''/tmp/w/ramdisk/usr/sbin/tool'']
             \<in> set (subprocesses (trace s'))"
    by (rule visited_bin_file_escalated)
      (simp_all add: tool_env_def example_env_def os_dirname_tool os_basename_usr_sbin)
  then show ?thesis
    by (simp add: dest_path_def tool_env_def startswith_def)
qed

section \<open>Supporting lemmas for the flows\<close>

lemma lower_char_shift:
  assumes "is_upper c" "(of_char d :: nat) = of_char c + 32"
  shows "lower_char c = lower_char d"
proof -
  have "\<not> is_upper d" using assms by (simp add: is_upper_def)
  moreover have "char_of ((of_char c :: nat) + 32) = d"
    using assms(2) [symmetric] by simp
  ultimately show ?thesis using assms(1) by (simp add: lower_char_def)
qed

lemma same_letter_lower: "same_letter c d \<Longrightarrow> lower_char c = lower_char d"
  unfolding same_letter_def using lower_char_shift [of c d] lower_char_shift [of d c] by auto

lemma equal_up_to_case_lower: "equal_up_to_case a b \<Longrightarrow> lower a = lower b"
  unfolding equal_up_to_case_def lower_def
  by (induction a b rule: list_all2_induct) (simp_all add: same_letter_lower)

lemma get_comp_no_identity:
  assumes "\<forall>i \<in> set (identities manifest). lower (boardConfig i) \<noteq> lower boardconfig"
  shows "get_comp manifest boardconfig name = None"
proof -
  have "find (\<lambda>i. lower (boardConfig i) = lower boardconfig) (identities manifest) = None"
    using assms by (simp add: find_None_iff)
  then show ?thesis by (simp add: get_comp_def)
qed

lemma lower_d321ap: "lower ''d321ap'' = ''d321ap''"
  by (simp add: lower_def lower_char_def is_upper_def)

lemma lower_n51ap: "lower ''n51ap'' = ''n51ap''"
  by (simp add: lower_def lower_char_def is_upper_def)

lemma get_comp_d321:
  "get_comp d321_manifest ''d321ap'' name =
     map_of [(''RestoreRamDisk'', ''090-1111-100.dmg''),
                (''RestoreKernelCache'', ''kernelcache.release.d321''),
                (''KernelCache'', ''kernelcache.release.d321''),
                (''iBSS'', ''Firmware/dfu/iBSS.d321.RELEASE.im4p''),
                (''iBEC'', ''Firmware/dfu/iBEC.d321.RELEASE.im4p''),
                (''DeviceTree'', ''Firmware/all_flash/DeviceTree.d321ap.im4p'')] name"
  by (simp add: get_comp_def d321_manifest_def lower_d321ap lower_n51ap)

lemmas step_defs = os_mkdir_def atexit_register_def atexit_unregister_def print_info_def
      print_error_def emit_def sys_exit_def raise_def skip_def and_then_def run_def discard_def
      execute_def with_path_def write_output_def if_given_def Let_def

section \<open>The claims about image synthesis and pruning\<close>

text \<open>
  Claim C1: a staged file under \<^verbatim>\<open>bin\<close>, \<^verbatim>\<open>sbin\<close> or \<^verbatim>\<open>libexec\<close> whose mode carries
  setuid or setgid bits keeps its full mode in the \<^verbatim>\<open>chmod\<close> the synthesis issues.
  The code intends this (the comment on line 144: ``to ensure setuid binaries keep
  permissions''), but line 134 keeps only the last three octal digits of \<^verbatim>\<open>st_mode\<close>
  before anything is compared. For the regular file \<^verbatim>\<open>usr/sbin/tool\<close> with
  \<^verbatim>\<open>st_mode = 0o104755\<close> (decimal 35309) the run below issues \<^verbatim>\<open>chmod 755\<close>: the setuid
  digit is gone from the mode handed to \<^verbatim>\<open>hfsplus\<close>.
\<close>

theorem setuid_mode_loses_high_bits:
  "subprocesses (trace (state_of (linux_hfsplus_sync (tool_env 0 35309) ''/tmp/w'' initial))) =
     [[''hfsplus'', ''/tmp/w/ramdisk.dmg'', ''mkdir'', ''/usr''],
      [''hfsplus'', ''/tmp/w/ramdisk.dmg'', ''mkdir'', ''/usr/sbin''],
      [''hfsplus'', ''/tmp/w/ramdisk.dmg'', ''add'', ''/tmp/w/ramdisk/usr/sbin/tool'', ''/usr/sbin/tool''],
      [''hfsplus'', ''/tmp/w/ramdisk.dmg'', ''chmod'', ''755'', ''/usr/sbin/tool'']]"
proof -
  have "issues (linux_hfsplus_sync (tool_env 0 35309) ''/tmp/w'') (sync_commands (tool_env 0 35309) ''/tmp/w'')"
    by (rule issues_linux_hfsplus_sync) (simp_all add: tool_env_def example_env_def)
  then obtain s' where "linux_hfsplus_sync (tool_env 0 35309) ''/tmp/w'' initial = Ok () s'"
    and "subprocesses (trace s') = subprocesses (trace initial) @ sync_commands (tool_env 0 35309) ''/tmp/w''"
    unfolding issues_def by blast
  then show ?thesis
    by (simp add: state_of_def sync_commands_tool effective_permission_04755 initial_def)
qed

text \<open>
  Claim C6: every staged regular file or symbolic link whose parent directory is named
  \<^verbatim>\<open>bin\<close>, \<^verbatim>\<open>sbin\<close> or \<^verbatim>\<open>libexec\<close> and whose permission bits are below \<^verbatim>\<open>0755\<close> gets a
  \<^verbatim>\<open>chmod\<close> with mode \<^verbatim>\<open>100755\<close>. The code attempts this for the whole staging tree (lines
  131--156, and the docstring: ``rsync-like function to add files to ramdisk'', ``manually
  make dirs, symlinks, files, and then finally chmod to same/correct permissions''), but
  the walk of line 131 is \<^verbatim>\<open>glob\<close> with \<^verbatim>\<open>include_hidden\<close> left at its default, which yields
  no name that begins with a dot. The tree below holds two regular files of mode \<^verbatim>\<open>0644\<close>
  (\<open>33188\<close>) in \<^verbatim>\<open>usr/bin\<close>, \<^verbatim>\<open>.hidden\<close> and \<^verbatim>\<open>tool\<close>: the run places \<^verbatim>\<open>tool\<close> and sets
  its mode to \<^verbatim>\<open>100755\<close>, and issues no command at all for \<^verbatim>\<open>.hidden\<close>. (The entries the
  walk does visit are escalated as claimed, \<open>visited_bin_file_escalated\<close>, except a
  symbolic link that leads to a directory, which line 141 skips: claim C7.)
\<close>

theorem hidden_bin_file_gets_no_chmod:
  "''/tmp/w/ramdisk/usr/bin/.hidden'' \<in> set hidden_staged \<and>
   \<not> isdir hidden_env ''/tmp/w/ramdisk/usr/bin/.hidden'' \<and>
   \<not> islink hidden_env ''/tmp/w/ramdisk/usr/bin/.hidden'' \<and>
   lstat_mode hidden_env ''/tmp/w/ramdisk/usr/bin/.hidden'' = 33188 \<and>
   os_basename (os_dirname (relpath hidden_env ''/tmp/w/ramdisk/usr/bin/.hidden'' ''/tmp/w/ramdisk''))
     = ''bin'' \<and>
   subprocesses (trace (state_of (linux_hfsplus_sync hidden_env ''/tmp/w'' initial))) =
     [[''hfsplus'', ''/tmp/w/ramdisk.dmg'', ''mkdir'', ''/usr''],
      [''hfsplus'', ''/tmp/w/ramdisk.dmg'', ''mkdir'', ''/usr/bin''],
      [''hfsplus'', ''/tmp/w/ramdisk.dmg'', ''add'', ''/tmp/w/ramdisk/usr/bin/tool'', ''/usr/bin/tool''],
      [''hfsplus'', ''/tmp/w/ramdisk.dmg'', ''chmod'', ''100755'', ''/usr/bin/tool'']]"
proof -
  have shown: "filter glob_shows hidden_staged =
     [''/tmp/w/ramdisk/'', ''/tmp/w/ramdisk/usr'', ''/tmp/w/ramdisk/usr/bin'',
      ''/tmp/w/ramdisk/usr/bin/tool'']"
    by (simp add: glob_shows_def hidden_staged_def os_basename_def rfind_sep_def startswith_def)
  have parent: "os_dirname ''usr/bin/.hidden'' = ''usr/bin''" "os_dirname ''usr/bin/tool'' = ''usr/bin''"
    by (simp_all add: os_dirname_def rfind_sep_def rstrip_sep_def Let_def)
  have name: "os_basename ''usr/bin'' = ''bin''"
    by (simp add: os_basename_def rfind_sep_def)
  have mode: "effective_permission ''usr/bin'' 33188 = ''100755''"
    by (simp add: effective_permission_def endswith_any_def endswith_def suffix_to_prefix
        chmod_permission_oct last3_oct digit_char_def py_int_last3_oct)
  have "issues (linux_hfsplus_sync hidden_env ''/tmp/w'') (sync_commands hidden_env ''/tmp/w'')"
    by (rule issues_linux_hfsplus_sync) (simp_all add: hidden_env_def example_env_def shown)
  then obtain s' where "linux_hfsplus_sync hidden_env ''/tmp/w'' initial = Ok () s'"
    and "subprocesses (trace s') = subprocesses (trace initial) @ sync_commands hidden_env ''/tmp/w''"
    unfolding issues_def by blast
  moreover have "sync_commands hidden_env ''/tmp/w'' =
     [[''hfsplus'', ''/tmp/w/ramdisk.dmg'', ''mkdir'', ''/usr''],
      [''hfsplus'', ''/tmp/w/ramdisk.dmg'', ''mkdir'', ''/usr/bin''],
      [''hfsplus'', ''/tmp/w/ramdisk.dmg'', ''add'', ''/tmp/w/ramdisk/usr/bin/tool'', ''/usr/bin/tool''],
      [''hfsplus'', ''/tmp/w/ramdisk.dmg'', ''chmod'', ''100755'', ''/usr/bin/tool'']]"
    by (simp add: sync_commands_def hidden_env_def example_env_def directory_commands_def
        file_commands_def dest_path_def startswith_def shown parent mode)
  ultimately have "subprocesses (trace (state_of (linux_hfsplus_sync hidden_env ''/tmp/w'' initial))) =
     [[''hfsplus'', ''/tmp/w/ramdisk.dmg'', ''mkdir'', ''/usr''],
      [''hfsplus'', ''/tmp/w/ramdisk.dmg'', ''mkdir'', ''/usr/bin''],
      [''hfsplus'', ''/tmp/w/ramdisk.dmg'', ''add'', ''/tmp/w/ramdisk/usr/bin/tool'', ''/usr/bin/tool''],
      [''hfsplus'', ''/tmp/w/ramdisk.dmg'', ''chmod'', ''100755'', ''/usr/bin/tool'']]"
    by (simp add: state_of_def initial_def)
  then show ?thesis
    by (simp add: hidden_env_def example_env_def hidden_staged_def parent name)
qed

text \<open>
  Claim C7: every symbolic link of the staging tree is placed in the image by a \<^verbatim>\<open>link\<close>
  command carrying its destination path and its target string. The code attempts this
  (lines 148--151, and the docstring: ``manually make dirs, symlinks, files''), but the
  directory test of line 141 comes first and \<^verbatim>\<open>os.path.isdir\<close> follows symbolic links:
  a link whose target is a directory is skipped. For \<^verbatim>\<open>usr/bin/foo -> ../lib\<close>, with
  \<^verbatim>\<open>usr/lib\<close> a staged directory, the run below issues no \<^verbatim>\<open>link\<close> command at all; the
  first walk has made \<^verbatim>\<open>/usr/bin/foo\<close> a directory instead.
\<close>

theorem symlink_to_directory_not_linked:
  "subprocesses (trace (state_of (linux_hfsplus_sync link_env ''/tmp/w'' initial))) =
     [[''hfsplus'', ''/tmp/w/ramdisk.dmg'', ''mkdir'', ''/usr''],
      [''hfsplus'', ''/tmp/w/ramdisk.dmg'', ''mkdir'', ''/usr/bin''],
      [''hfsplus'', ''/tmp/w/ramdisk.dmg'', ''mkdir'', ''/usr/bin/foo''],
      [''hfsplus'', ''/tmp/w/ramdisk.dmg'', ''mkdir'', ''/usr/lib'']]"
proof -
  have "issues (linux_hfsplus_sync link_env ''/tmp/w'') (sync_commands link_env ''/tmp/w'')"
    by (rule issues_linux_hfsplus_sync) (simp_all add: link_env_def example_env_def)
  then obtain s' where "linux_hfsplus_sync link_env ''/tmp/w'' initial = Ok () s'"
    and "subprocesses (trace s') = subprocesses (trace initial) @ sync_commands link_env ''/tmp/w''"
    unfolding issues_def by blast
  moreover have "sync_commands link_env ''/tmp/w'' =
     [[''hfsplus'', ''/tmp/w/ramdisk.dmg'', ''mkdir'', ''/usr''],
      [''hfsplus'', ''/tmp/w/ramdisk.dmg'', ''mkdir'', ''/usr/bin''],
      [''hfsplus'', ''/tmp/w/ramdisk.dmg'', ''mkdir'', ''/usr/bin/foo''],
      [''hfsplus'', ''/tmp/w/ramdisk.dmg'', ''mkdir'', ''/usr/lib'']]"
    by (simp add: sync_commands_def link_env_def example_env_def directory_commands_def
        file_commands_def dest_path_def startswith_def)
  ultimately show ?thesis
    by (simp add: state_of_def initial_def)
qed

text \<open>
  Claim C9: every per-entry operation of both passes tolerates failure, and only the
  precondition check is fatal. Whatever exit status and output each external command
  has (\<open>outcome\<close> is arbitrary, and may depend on the history), a synthesis whose staging
  root and image exist returns normally and has run exactly the expected commands, one
  \<^verbatim>\<open>mkdir\<close> per directory and \<^verbatim>\<open>link\<close> or \<^verbatim>\<open>add\<close> then \<^verbatim>\<open>chmod\<close> per other entry;
  when the staging root or the image is missing it exits with status 1 and has run
  nothing. Every staged entry is taken to have a mode of at least three octal digits, as
  every mode with its file-type bits has; on a shorter one \<^verbatim>\<open>int\<close> on line 145 would
  raise.
\<close>

theorem sync_tolerates_failed_commands:
  "(path_exists e (work @ ''/ramdisk'') \<and> path_exists e (work @ ''/ramdisk.dmg'') \<and>
      (\<forall>file \<in> set (glob e (work @ ''/ramdisk/**'')). 64 \<le> lstat_mode e file)
    \<longrightarrow> (\<exists>s'. linux_hfsplus_sync (e\<lparr>subprocess_run := outcome\<rparr>) work s = Ok () s' \<and>
              subprocesses (trace s') = subprocesses (trace s) @ sync_commands e work))
   \<and>
   (\<not> (path_exists e (work @ ''/ramdisk'') \<and> path_exists e (work @ ''/ramdisk.dmg''))
    \<longrightarrow> (\<exists>s'. linux_hfsplus_sync (e\<lparr>subprocess_run := outcome\<rparr>) work s = Halt (SysExit 1) s' \<and>
              subprocesses (trace s') = subprocesses (trace s)))"
proof (intro conjI impI)
  assume a: "path_exists e (work @ ''/ramdisk'') \<and> path_exists e (work @ ''/ramdisk.dmg'') \<and>
      (\<forall>file \<in> set (glob e (work @ ''/ramdisk/**'')). 64 \<le> lstat_mode e file)"
  have "issues (linux_hfsplus_sync (e\<lparr>subprocess_run := outcome\<rparr>) work)
          (sync_commands (e\<lparr>subprocess_run := outcome\<rparr>) work)"
    by (rule issues_linux_hfsplus_sync) (use a in simp_all)
  then show "\<exists>s'. linux_hfsplus_sync (e\<lparr>subprocess_run := outcome\<rparr>) work s = Ok () s' \<and>
              subprocesses (trace s') = subprocesses (trace s) @ sync_commands e work"
    by (simp add: issues_def)
next
  assume "\<not> (path_exists e (work @ ''/ramdisk'') \<and> path_exists e (work @ ''/ramdisk.dmg''))"
  then show "\<exists>s'. linux_hfsplus_sync (e\<lparr>subprocess_run := outcome\<rparr>) work s = Halt (SysExit 1) s' \<and>
              subprocesses (trace s') = subprocesses (trace s)"
    by (auto simp: linux_hfsplus_sync_def print_error_def emit_def sys_exit_def and_then_def
        subprocesses_append)
qed

theorem sync_tolerates_failed_commands_witness:
  "path_exists (tool_env 1 33188) (''/tmp/w'' @ ''/ramdisk'') \<and>
   fst (subprocess_run (tool_env 1 33188) [] [''hfsplus'']) = 1 \<and>
   (\<exists>s'. linux_hfsplus_sync (tool_env 1 33188) ''/tmp/w'' initial = Ok () s' \<and>
      subprocesses (trace s') =
        [[''hfsplus'', ''/tmp/w/ramdisk.dmg'', ''mkdir'', ''/usr''],
         [''hfsplus'', ''/tmp/w/ramdisk.dmg'', ''mkdir'', ''/usr/sbin''],
         [''hfsplus'', ''/tmp/w/ramdisk.dmg'', ''add'', ''/tmp/w/ramdisk/usr/sbin/tool'', ''/usr/sbin/tool''],
         [''hfsplus'', ''/tmp/w/ramdisk.dmg'', ''chmod'', ''100755'', ''/usr/sbin/tool'']])"
proof -
  have e: "(tool_env 1 33188)\<lparr>subprocess_run := (\<lambda>history arguments. (1, []))\<rparr> = tool_env 1 33188"
    by (simp add: tool_env_def)
  have p: "path_exists (tool_env 1 33188) (''/tmp/w'' @ ''/ramdisk'') \<and>
      path_exists (tool_env 1 33188) (''/tmp/w'' @ ''/ramdisk.dmg'') \<and>
      (\<forall>file \<in> set (glob (tool_env 1 33188) (''/tmp/w'' @ ''/ramdisk/**'')). 64 \<le> lstat_mode (tool_env 1 33188) file)"
    by (simp add: tool_env_def example_env_def)
  have r: "fst (subprocess_run (tool_env 1 33188) [] [''hfsplus'']) = 1"
    by (simp add: tool_env_def)
  show ?thesis
    using sync_tolerates_failed_commands
      [of "tool_env 1 33188" "''/tmp/w''" "\<lambda>history arguments. (1, [])" initial] p r
    by (simp add: e sync_commands_tool effective_permission_0644 initial_def)
qed

text \<open>
  Claim C10: the pruning step only deletes paths that start with the working directory.
  Its whole effect is a list of \<^verbatim>\<open>os.remove\<close> calls, and every path removed starts with
  \<open>work\<close>, whatever the walk of the working directory returned.
\<close>

theorem pruning_stays_inside_work:
  "\<exists>removed.
     cleanup_trim e work suffix' s = Ok () (s\<lparr>trace := trace s @ map Remove removed\<rparr>) \<and>
     (\<forall>fn \<in> set removed. startswith fn work)"
  unfolding cleanup_trim_def Let_def by (rule remove_loop)

theorem pruning_stays_inside_work_witness:
  "cleanup_trim trim_env ''/tmp/w'' ''im4p'' initial
     = Ok () (initial\<lparr>trace := trace initial @ map Remove [''/tmp/w/kcache.raw'']\<rparr>) \<and>
   startswith ''/tmp/w/kcache.raw'' ''/tmp/w'' \<and> \<not> startswith ''/home/user/notes.txt'' ''/tmp/w''"
proof -
  from pruning_stays_inside_work [of trim_env "''/tmp/w''" "''im4p''" initial]
  obtain removed where
    r: "cleanup_trim trim_env ''/tmp/w'' ''im4p'' initial
          = Ok () (initial\<lparr>trace := trace initial @ map Remove removed\<rparr>)"
    and a: "\<forall>fn \<in> set removed. startswith fn ''/tmp/w''"
    by blast
  have c: "cleanup_trim trim_env ''/tmp/w'' ''im4p'' initial
          = Ok () (initial\<lparr>trace := trace initial @ map Remove [''/tmp/w/kcache.raw'']\<rparr>)"
    by (simp add: cleanup_trim_def trim_env_def example_env_def endswith_def suffix_to_prefix
        os_basename_def rfind_sep_def startswith_def os_remove_def emit_def skip_def and_then_def
        initial_def)
  from r c have "removed = [''/tmp/w/kcache.raw'']"
    by (auto simp: initial_def map_eq_Cons_conv)
  with a c show ?thesis
    by (simp add: startswith_def)
qed

section \<open>The claims about the two flows\<close>

text \<open>
  Claim C2: with \<^verbatim>\<open>legacy\<close> set, a RestoreFlow run performs no extract, remove, patch,
  entitlement, resign, chmod or copy-back operation naming \<^verbatim>\<open>restored_external\<close>. The code
  announces this (line 229: ``Legacy mode, skipping restored_external'') and the branch
  of lines 228--247 does skip the patching; on macOS no other command names the file. On
  Linux, lines 191, 194, 257 and 260 are not under the flag. The run below is a legacy
  run on Linux in which every command succeeds; its third, fifth, twelfth and fourteenth
  commands extract, remove, add and chmod \<^verbatim>\<open>restored_external\<close>.
\<close>

theorem legacy_run_on_linux_touches_restored_external:
  "subprocesses (trace (state_of
      (prep_restore restore_env ''/home/u/fw.ipsw'' ''/home/u/blob.shsh2'' ''d321ap'' False True False None
         initial))) =
   [[''img4'', ''-i'', ''/tmp/restore-k3x9/090-1111-100.dmg'', ''-o'', ''/tmp/restore-k3x9/ramdisk.dmg''],
    [''hfsplus'', ''/tmp/restore-k3x9/ramdisk.dmg'', ''extract'', ''/usr/sbin/asr'', ''/tmp/restore-k3x9/ramdisk/usr/sbin/asr''],
    [''hfsplus'', ''/tmp/restore-k3x9/ramdisk.dmg'', ''extract'', ''/usr/local/bin/restored_external'',
       ''/tmp/restore-k3x9/ramdisk/usr/local/bin/restored_external''],
    [''hfsplus'', ''/tmp/restore-k3x9/ramdisk.dmg'', ''rm'', ''/usr/sbin/asr''],
    [''hfsplus'', ''/tmp/restore-k3x9/ramdisk.dmg'', ''rm'', ''/usr/local/bin/restored_external''],
    [''asr64_patcher'', ''/tmp/restore-k3x9/ramdisk/usr/sbin/asr'', ''/tmp/restore-k3x9/patched_asr''],
    [''ldid'', ''-e'', ''/tmp/restore-k3x9/ramdisk/usr/sbin/asr''],
    [''ldid'', ''-S/tmp/restore-k3x9/asr.plist'', ''/tmp/restore-k3x9/patched_asr''],
    [''chmod'', ''-R'', ''755'', ''/tmp/restore-k3x9/patched_asr''],
    [''cp'', ''/tmp/restore-k3x9/patched_asr'', ''/tmp/restore-k3x9/ramdisk/usr/sbin/asr''],
    [''hfsplus'', ''/tmp/restore-k3x9/ramdisk.dmg'', ''add'', ''/tmp/restore-k3x9/ramdisk/usr/sbin/asr'', ''/usr/sbin/asr''],
    [''hfsplus'', ''/tmp/restore-k3x9/ramdisk.dmg'', ''add'', ''/tmp/restore-k3x9/ramdisk/usr/local/bin/restored_external'',
       ''/usr/local/bin/restored_external''],
    [''hfsplus'', ''/tmp/restore-k3x9/ramdisk.dmg'', ''chmod'', ''100755'', ''/usr/sbin/asr''],
    [''hfsplus'', ''/tmp/restore-k3x9/ramdisk.dmg'', ''chmod'', ''100755'', ''/usr/local/bin/restored_external''],
    [''/usr/bin/python3'', ''-m'', ''pyimg4'', ''im4p'', ''create'', ''-i'', ''/tmp/restore-k3x9/ramdisk.dmg'',
       ''-o'', ''/tmp/restore-k3x9/ramdisk.im4p'', ''-f'', ''rdsk''],
    [''/usr/bin/python3'', ''-m'', ''pyimg4'', ''im4p'', ''extract'', ''-i'', ''/tmp/restore-k3x9/kernelcache.release.d321'',
       ''-o'', ''/tmp/restore-k3x9/kcache.raw''],
    [''Kernel64Patcher'', ''/tmp/restore-k3x9/kcache.raw'', ''/tmp/restore-k3x9/krnl.patched'', ''-f'', ''-a''],
    [''/usr/bin/python3'', ''-m'', ''pyimg4'', ''im4p'', ''create'', ''-i'', ''/tmp/restore-k3x9/krnl.patched'',
       ''-o'', ''/tmp/restore-k3x9/krnl.im4p'', ''-f'', ''rkrn'', ''--lzss'']]"
  by (simp add: prep_restore_def restore_mount_def restore_patch_asr_def
      restore_patch_restored_external_def restore_seal_def restore_kernel_def restore_finish_def
      cleanup_trim_def step_defs restore_env_def example_env_def get_comp_d321 initial_def state_of_def
      truthy_def)

text \<open>
  Claim C3: in RestoreFlow, when no identity of the manifest matches the board string, the
  pipeline reports \<^verbatim>\<open>BoardConfig was not recognized\<close> and exits with status 1 before any
  external tool is invoked. The whole effect of such a run of \<^verbatim>\<open>prep_restore\<close> is given:
  the staging directory, the announcement, the unpacking of the bundle and the error
  line; no \<open>Subprocess\<close> event is among them.
\<close>

theorem unknown_board_exits_before_any_command:
  assumes "read_manifest e (mkdtemp e ''restore-'' @ ''/BuildManifest.plist'') = Some manifest"
    and "\<forall>i \<in> set (identities manifest). lower (boardConfig i) \<noteq> lower boardconfig"
  shows "prep_restore e ipsw blob boardconfig kpp legacy skip_baseband extra_ramdisk s =
           Halt (SysExit 1)
             (s\<lparr>trace := trace s @
                   [MkDir (mkdtemp e ''restore-'' @ ''/ramdisk''),
                    Stdout ''[*] Info: Extracting IPSW'',
                    ExtractAll ipsw (mkdtemp e ''restore-''),
                    Stderr ''[!] Error: Error: BoardConfig was not recognized''],
                 atexit := atexit s @ [mkdtemp e ''restore-'']\<rparr>)"
  using assms(1) get_comp_no_identity [OF assms(2), of "''RestoreRamDisk''"]
  by (simp add: prep_restore_def Let_def os_mkdir_def atexit_register_def print_info_def
      print_error_def emit_def sys_exit_def and_then_def)

theorem unknown_board_exits_before_any_command_witness:
  "prep_restore restore_env ''/home/u/fw.ipsw'' ''/home/u/blob.shsh2'' ''d999ap'' False False False None initial =
     Halt (SysExit 1)
       \<lparr> trace =
           [MkDir ''/tmp/restore-k3x9/ramdisk'',
            Stdout ''[*] Info: Extracting IPSW'',
            ExtractAll ''/home/u/fw.ipsw'' ''/tmp/restore-k3x9'',
            Stderr ''[!] Error: Error: BoardConfig was not recognized''],
         atexit = [''/tmp/restore-k3x9''] \<rparr>"
proof -
  have m: "read_manifest restore_env (mkdtemp restore_env ''restore-'' @ ''/BuildManifest.plist'')
             = Some d321_manifest"
    by (simp add: restore_env_def)
  have n: "\<forall>i \<in> set (identities d321_manifest). lower (boardConfig i) \<noteq> lower ''d999ap''"
    by (simp add: d321_manifest_def lower_def lower_char_def is_upper_def)
  show ?thesis
    using unknown_board_exits_before_any_command [OF m n, of "''/home/u/fw.ipsw''"
        "''/home/u/blob.shsh2''" False False False None initial]
    by (simp add: restore_env_def example_env_def initial_def)
qed

text \<open>
  Claim C8: two board arguments equal up to ASCII case, with the same remaining inputs,
  give the same run: line 500 lowers the argument before either flow sees it, so every
  component lookup, every command and the exit status coincide.
\<close>

theorem board_case_does_not_matter:
  assumes "equal_up_to_case x y"
  shows "program e (a\<lparr>arg_boardconfig := x\<rparr>) = program e (a\<lparr>arg_boardconfig := y\<rparr>)"
  using equal_up_to_case_lower [OF assms] by (simp add: program_def main_def)

theorem board_case_does_not_matter_witness:
  "equal_up_to_case ''D321AP'' ''d321ap'' \<and>
   program restore_env (restore_args\<lparr>arg_boardconfig := ''D321AP''\<rparr>)
     = program restore_env (restore_args\<lparr>arg_boardconfig := ''d321ap''\<rparr>)"
proof -
  have c: "equal_up_to_case ''D321AP'' ''d321ap''"
    by (simp add: equal_up_to_case_def same_letter_def is_upper_def)
  show ?thesis
    using c board_case_does_not_matter [OF c, of restore_env restore_args] by simp
qed

section \<open>Histories only grow\<close>

lemma and_then_Ok [simp]: "and_then (Ok a s) f = f a s"
  by (simp add: and_then_def)

lemma and_then_Halt [simp]: "and_then (Halt x s) f = Halt x s"
  by (simp add: and_then_def)

lemma state_of_simps [simp]: "state_of (Ok a s) = s" "state_of (Halt x s) = s"
  by (simp_all add: state_of_def)

lemma reaches_and_then:
  assumes "reaches t r" and "\<And>a. extends (f a)"
  shows "reaches t (and_then r f)"
proof (cases r)
  case (Ok a s')
  have "prefix (trace s') (trace (state_of (f a s')))"
    using assms(2) by (simp add: extends_def)
  moreover have "prefix t (trace s')"
    using assms(1) Ok by (simp add: reaches_def)
  ultimately show ?thesis
    using Ok by (auto simp: reaches_def)
next
  case (Halt x s')
  then show ?thesis using assms(1) by (simp add: reaches_def)
qed

lemma extends_emit: "extends (emit ev)"
  by (simp add: extends_def emit_def)

lemma extends_print_info: "extends (print_info m)"
  by (simp add: print_info_def extends_emit)

lemma extends_print_error: "extends (print_error m)"
  by (simp add: print_error_def extends_emit)

lemma extends_skip: "extends skip"
  by (simp add: extends_def skip_def)

lemma extends_sys_exit: "extends (sys_exit n)"
  by (simp add: extends_def sys_exit_def)

lemma extends_raise: "extends (raise x)"
  by (simp add: extends_def raise_def)

lemma extends_atexit_unregister: "extends atexit_unregister"
  by (simp add: extends_def atexit_unregister_def)

lemma reaches_execute: "reaches (trace s) (execute e arguments b s)"
  by (simp add: reaches_def execute_def Let_def split: prod.splits)

lemma extends_run: "extends (run e arguments b)"
  unfolding extends_def run_def discard_def
proof
  fix s
  have "reaches (trace s) (and_then (execute e arguments b s) (\<lambda>_. Ok ()))"
    by (rule reaches_and_then [OF reaches_execute]) (simp add: extends_def)
  then show "prefix (trace s) (trace (state_of (and_then (execute e arguments b s) (\<lambda>_. Ok ()))))"
    by (simp add: reaches_def)
qed

lemma extends_write_output: "extends (write_output e path arguments)"
  unfolding extends_def write_output_def
proof
  fix s
  have "reaches (trace s) (and_then (execute e arguments False s) (\<lambda>out. emit (WriteFile path out)))"
    by (rule reaches_and_then [OF reaches_execute]) (rule extends_emit)
  then show "prefix (trace s)
      (trace (state_of (and_then (execute e arguments False s) (\<lambda>out. emit (WriteFile path out)))))"
    by (simp add: reaches_def)
qed

lemma extends_seq:
  assumes "\<And>f. f \<in> set fs \<Longrightarrow> extends f"
  shows "extends (seq fs)"
  using assms
proof (induction fs)
  case Nil
  show ?case by (simp add: extends_def)
next
  case (Cons f fs)
  have tl: "extends (seq fs)" by (rule Cons.IH) (simp add: Cons.prems)
  have hd: "extends f" by (simp add: Cons.prems)
  show ?case
    unfolding extends_def
  proof
    fix s
    have "reaches (trace s) (f s)"
      using hd by (simp add: extends_def reaches_def)
    then have "reaches (trace s) (and_then (f s) (\<lambda>_. seq fs))"
      by (rule reaches_and_then) (rule tl)
    then show "prefix (trace s) (trace (state_of (seq (f # fs) s)))"
      by (simp add: reaches_def)
  qed
qed

lemma extends_if: "extends f \<Longrightarrow> extends g \<Longrightarrow> extends (if c then f else g)"
  by simp

lemma extends_with_path: "(\<And>p. extends (body p)) \<Longrightarrow> extends (with_path work name body)"
  by (cases name) (simp_all add: with_path_def extends_raise)

lemma extends_if_given: "(\<And>x. extends (body x)) \<Longrightarrow> extends (if_given v body)"
  by (cases v) (simp_all add: if_given_def extends_skip)

lemma extends_os_remove: "extends (os_remove fn)"
  by (simp add: os_remove_def extends_emit)

lemma extends_cleanup_trim: "extends (cleanup_trim e work suffix')"
  unfolding cleanup_trim_def Let_def
  by (rule extends_seq) (auto simp: extends_os_remove extends_skip)

lemma extends_sync_directory: "extends (sync_directory e work d)"
  by (simp add: sync_directory_def Let_def extends_run)

lemma extends_sync_file: "extends (sync_file e work file)"
  unfolding sync_file_def Let_def
  by (auto simp: extends_skip extends_raise extends_run split: sum.splits intro!: extends_seq)

lemma extends_linux_hfsplus_sync: "extends (linux_hfsplus_sync e work)"
  unfolding linux_hfsplus_sync_def
  by (auto simp: extends_print_error extends_sys_exit extends_sync_directory extends_sync_file
      intro!: extends_seq)

lemmas extends_basic = extends_print_info extends_print_error extends_skip extends_sys_exit
  extends_raise extends_run extends_write_output extends_emit extends_atexit_unregister
  extends_cleanup_trim extends_linux_hfsplus_sync

lemma extends_unpack_extra_ramdisk: "extends (unpack_extra_ramdisk e work x)"
  unfolding unpack_extra_ramdisk_def
  by (rule extends_seq) (auto simp: extends_basic)

lemma extends_boot_devicetree: "extends (boot_devicetree e work trustcache devicetree legacy)"
  unfolding boot_devicetree_def
  by (rule extends_seq) (auto simp: extends_basic intro!: extends_with_path extends_seq)

lemma extends_boot_kernel: "extends (boot_kernel e work kernelcache kpp extra_ramdisk)"
  unfolding boot_kernel_def
  by (rule extends_seq) (auto simp: extends_basic intro!: extends_with_path)

lemma extends_boot_ramdisk: "extends (boot_ramdisk e work manifest boardconfig x)"
  unfolding boot_ramdisk_def
  by (auto simp: extends_basic extends_unpack_extra_ramdisk split: option.splits intro!: extends_seq)

lemma extends_boot_finish: "extends (boot_finish e work kpp)"
  unfolding boot_finish_def Let_def
  by (rule extends_seq) (auto simp: extends_basic)

lemma seq_single: "seq [f] s = f s"
  by (cases "f s") simp_all

lemma seq_emit: "seq (emit ev # fs) s = seq fs (s\<lparr>trace := trace s @ [ev]\<rparr>)"
  by (simp add: emit_def)

lemma seq_print_info:
  "seq (print_info m # fs) s = seq fs (s\<lparr>trace := trace s @ [Stdout (''[*] Info: '' @ m)]\<rparr>)"
  by (simp add: print_info_def emit_def)

lemma seq_print_error:
  "seq (print_error m # fs) s = seq fs (s\<lparr>trace := trace s @ [Stderr (''[!] Error: '' @ m)]\<rparr>)"
  by (simp add: print_error_def emit_def)

lemma seq_os_mkdir: "seq (os_mkdir p # fs) s = seq fs (s\<lparr>trace := trace s @ [MkDir p]\<rparr>)"
  by (simp add: os_mkdir_def emit_def)

lemma seq_atexit_register:
  "seq (atexit_register w # fs) s = seq fs (s\<lparr>atexit := atexit s @ [w]\<rparr>)"
  by (simp add: atexit_register_def)

lemma seq_skip: "seq (skip # fs) s = seq fs s"
  by (simp add: skip_def)

lemma seq_raise: "seq (raise x # fs) s = Halt (Uncaught x) s"
  by (simp add: raise_def)

lemma seq_sys_exit: "seq (sys_exit n # fs) s = Halt (SysExit n) s"
  by (simp add: sys_exit_def)

lemma seq_run: "seq (run e arguments b # fs) s = and_then (run e arguments b s) (\<lambda>_. seq fs)"
  by simp

lemma seq_single_fun: "seq [f] = f"
  by (rule ext) (rule seq_single)

lemma seq_info_raise:
  "seq (print_info m # raise x # fs)
     = (\<lambda>s. Halt (Uncaught x) (s\<lparr>trace := trace s @ [Stdout (''[*] Info: '' @ m)]\<rparr>))"
  by (rule ext) (simp add: seq_print_info seq_raise del: seq.simps)

lemmas seq_steps = seq_single seq_emit seq_print_info seq_print_error seq_os_mkdir
  seq_atexit_register seq_skip seq_raise seq_sys_exit

lemma reaches_seq_Cons:
  assumes "reaches t (f s)" and "\<And>g. g \<in> set fs \<Longrightarrow> extends g"
  shows "reaches t (seq (f # fs) s)"
proof -
  have "reaches t (and_then (f s) (\<lambda>_. seq fs))"
    using assms(1) by (rule reaches_and_then) (rule extends_seq, rule assms(2))
  then show ?thesis by simp
qed

lemma run_succeeds:
  assumes "\<not> DEBUG e" and "fst (subprocess_run e (trace s) arguments) \<le> 0"
  shows "run e arguments b s = Ok () (s\<lparr>trace := trace s @ [Subprocess arguments]\<rparr>)"
  using assms by (auto simp: run_def discard_def execute_def Let_def split: prod.splits)

lemma reaches_run:
  assumes "\<not> DEBUG e"
  shows "reaches (trace s @ [Subprocess arguments]) (run e arguments b s)"
  using assms
  by (simp add: reaches_def run_def discard_def execute_def Let_def split: prod.splits)

lemma get_comp_bare:
  "get_comp bare_manifest ''d321ap'' name = map_of [(''RestoreRamDisk'', ''090-1111-100.dmg'')] name"
  by (simp add: get_comp_def bare_manifest_def lower_d321ap)

lemma get_comp_ibss_only:
  "get_comp ibss_only_manifest ''d321ap'' name
     = map_of [(''iBSS'', ''Firmware/dfu/iBSS.d321.RELEASE.im4p'')] name"
  by (simp add: get_comp_def ibss_only_manifest_def lower_d321ap)


subsection \<open>A flow as its stages; a stage handed no path\<close>

lemma seq_Cons_fun: "seq (f # fs) = (\<lambda>s. and_then (f s) (\<lambda>_. seq fs))"
  by (rule ext) simp

lemma and_then_assoc: "and_then (and_then r f) g = and_then r (\<lambda>a s. and_then (f a s) g)"
  by (cases r) simp_all

lemma seq_append: "seq (xs @ ys) s = and_then (seq xs s) (\<lambda>_. seq ys)"
proof (induction xs arbitrary: s)
  case Nil
  show ?case by simp
next
  case (Cons f xs)
  have "seq ((f # xs) @ ys) s = and_then (f s) (\<lambda>_ s'. seq (xs @ ys) s')"
    by simp
  also have "\<dots> = and_then (f s) (\<lambda>_ s'. and_then (seq xs s') (\<lambda>_. seq ys))"
    by (simp add: Cons.IH)
  also have "\<dots> = and_then (seq (f # xs) s) (\<lambda>_. seq ys)"
    by (simp add: and_then_assoc)
  finally show ?case .
qed

lemma type_error_after_first: "seq (type_error_after evs # fs) = type_error_after evs"
  by (rule ext) (simp add: type_error_after_def)

lemma boot_prelude:
  assumes "read_manifest e (mkdtemp e ''boot-'' @ ''/BuildManifest.plist'') = Some manifest"
    and "productBuildVersion manifest = Some version"
    and "get_keys e device boardconfig version = keys"
  shows "prep_boot e ipsw blob boardconfig kpp device legacy extra_ramdisk boot_arguments s =
           seq [boot_loaders e (mkdtemp e ''boot-'') blob
                  (get_comp manifest boardconfig ''iBSS'') (get_comp manifest boardconfig ''iBEC'')
                  keys boot_arguments,
                boot_devicetree e (mkdtemp e ''boot-'')
                  (if \<not> legacy then get_comp manifest boardconfig ''StaticTrustCache'' else None)
                  (get_comp manifest boardconfig ''DeviceTree'') legacy,
                boot_kernel e (mkdtemp e ''boot-'') (get_comp manifest boardconfig ''KernelCache'') kpp
                  extra_ramdisk,
                if_given extra_ramdisk (boot_ramdisk e (mkdtemp e ''boot-'') manifest boardconfig),
                boot_finish e (mkdtemp e ''boot-'') kpp]
             (boot_started e ipsw keys s)"
proof (cases keys)
  case (fields ibss_iv ibss_key ibec_iv ibec_key)
  show ?thesis
    using assms unfolding fields
    by (cases "truthy ibss_iv \<and> truthy ibss_key \<and> truthy ibec_iv \<and> truthy ibec_key")
       (simp_all add: prep_boot_def Let_def seq_steps boot_started_def del: seq.simps)
qed

lemma restore_prelude:
  assumes "read_manifest e (mkdtemp e ''restore-'' @ ''/BuildManifest.plist'') = Some manifest"
    and "get_comp manifest boardconfig ''RestoreRamDisk'' = Some ramdisk_path"
  shows "prep_restore e ipsw blob boardconfig kpp legacy skip_baseband extra_ramdisk s =
           seq [restore_mount e (mkdtemp e ''restore-'') ramdisk_path,
                if_given extra_ramdisk (unpack_extra_ramdisk e (mkdtemp e ''restore-'')),
                restore_patch_asr e (mkdtemp e ''restore-''),
                restore_patch_restored_external e (mkdtemp e ''restore-'') legacy,
                restore_seal e (mkdtemp e ''restore-'') extra_ramdisk,
                restore_kernel e (mkdtemp e ''restore-'')
                  (get_comp manifest boardconfig ''RestoreKernelCache'') kpp,
                restore_finish e (mkdtemp e ''restore-'') ipsw blob skip_baseband]
             (restore_started e ipsw s)"
  using assms
  by (simp add: prep_restore_def Let_def seq_steps restore_started_def del: seq.simps)

lemma type_error_after_fun:
  "type_error_after evs = (\<lambda>s. Halt (Uncaught TypeError) (logged evs s))"
  by (rule ext) (simp add: type_error_after_def)

lemma loaders_without_ibss:
  "boot_loaders e work blob None ibec keys boot_arguments
     = type_error_after [Stdout ''[*] Info: Getting IBSS and IBEC'', Stdout ''[*] Info: Decrypting IBSS'']"
  by (rule ext, cases keys)
     (simp add: boot_loaders_def seq_steps with_path_def type_error_after_def logged_def
        del: seq.simps)

lemma loaders_without_ibec:
  "boot_loaders e work blob (Some ibss) None (ibss_iv, ibss_key, ibec_iv, ibec_key) boot_arguments
     = (\<lambda>s. and_then
              (run e [''img4'', ''-i'', work @ ''/'' @ ibss, ''-o'', work @ ''/ibss.dmg'', ''-k'',
                      ibss_iv @ ibss_key] False
                 (logged [Stdout ''[*] Info: Getting IBSS and IBEC'',
                          Stdout ''[*] Info: Decrypting IBSS''] s))
              (\<lambda>_. type_error_after [Stdout ''[*] Info: Decrypting IBEC'']))"
  by (rule ext)
     (simp add: boot_loaders_def seq_steps seq_run seq_info_raise with_path_def
        type_error_after_fun logged_def del: seq.simps)

lemma devicetree_without_devicetree:
  "boot_devicetree e work trustcache None legacy
     = type_error_after [Stdout ''[*] Info: Getting Device Tree and TrustCache'',
                         Stdout ''[*] Info: Signing Device Tree'']"
  by (rule ext)
     (simp add: boot_devicetree_def seq_steps with_path_def type_error_after_def logged_def
        del: seq.simps)

lemma devicetree_without_trustcache:
  "boot_devicetree e work None (Some devicetree) False
     = (\<lambda>s. and_then
              (run e [''img4'', ''-i'', work @ ''/'' @ devicetree, ''-o'', work @ ''/devicetree.img4'',
                      ''-M'', ''IM4M'', ''-T'', ''rdtr''] False
                 (logged [Stdout ''[*] Info: Getting Device Tree and TrustCache'',
                          Stdout ''[*] Info: Signing Device Tree''] s))
              (\<lambda>_. type_error_after [Stdout ''[*] Info: Signing Trust Cache'']))"
  by (rule ext)
     (simp add: boot_devicetree_def seq_steps seq_run seq_single_fun seq_info_raise with_path_def
        type_error_after_fun logged_def del: seq.simps)

lemma kernel_without_kernelcache:
  "boot_kernel e work None kpp extra_ramdisk
     = type_error_after [Stdout ''[*] Info: Getting Kernel Cache'', Stdout ''[*] Info: Extracting Kernel'']"
  by (rule ext)
     (simp add: boot_kernel_def seq_steps with_path_def type_error_after_def logged_def
        del: seq.simps)

lemma restore_kernel_without_kernelcache:
  "restore_kernel e work None kpp = type_error_after [Stdout ''[*] Info: Extracting Kernel'']"
  by (rule ext)
     (simp add: restore_kernel_def seq_steps with_path_def type_error_after_def logged_def
        del: seq.simps)

lemma seq_until_type_error:
  "seq (xs @ type_error_after evs # ys) s = and_then (seq xs s) (\<lambda>_. type_error_after evs)"
  by (simp only: seq_append type_error_after_first)

lemma seq_first_then_type_error:
  "seq ((\<lambda>s. and_then (f s) (\<lambda>_. type_error_after evs)) # ys)
     = (\<lambda>s. and_then (f s) (\<lambda>_. type_error_after evs))"
proof (rule ext)
  fix s
  show "seq ((\<lambda>s. and_then (f s) (\<lambda>_. type_error_after evs)) # ys) s
          = and_then (f s) (\<lambda>_. type_error_after evs)"
    by (cases "f s") (simp_all add: type_error_after_def)
qed

lemma get_comp_loaders_only:
  "get_comp loaders_only_manifest ''d321ap'' name
     = map_of [(''iBSS'', ''Firmware/dfu/iBSS.d321.RELEASE.im4p''),
               (''iBEC'', ''Firmware/dfu/iBEC.d321.RELEASE.im4p'')] name"
  by (simp add: get_comp_def loaders_only_manifest_def lower_d321ap)

lemma get_comp_no_kernel:
  "get_comp no_kernel_manifest ''d321ap'' name
     = map_of [(''iBSS'', ''Firmware/dfu/iBSS.d321.RELEASE.im4p''),
               (''iBEC'', ''Firmware/dfu/iBEC.d321.RELEASE.im4p''),
               (''DeviceTree'', ''Firmware/all_flash/DeviceTree.d321ap.im4p'')] name"
  by (simp add: get_comp_def no_kernel_manifest_def lower_d321ap)

section \<open>The claims about missing keys and unresolved components\<close>

text \<open>
  Claim C4: in BootFlow, when the key provider returns an empty value for any of the four
  loader parameters, the pipeline reports a warning and does not abort; the decrypt steps
  that follow consume the key values as they are. With the debug echo off (line 22), the
  manifest read, its build version present and the first-stage loader resolved, the
  history of the run starts with the announcements, the warning on the error stream and
  the \<^verbatim>\<open>img4\<close> command for the first-stage loader with \<^verbatim>\<open>-k ibss_iv + ibss_key\<close>; when
  that command succeeds and the second-stage loader resolves, the next events are the
  announcement and the \<^verbatim>\<open>img4\<close> command with \<^verbatim>\<open>-k ibec_iv + ibec_key\<close>. This holds
  whatever the later commands do.
\<close>

theorem missing_keys_warn_and_continue:
  fixes e :: env and s :: state
    and ipsw blob boardconfig boot_arguments ibss ibec ibss_iv ibss_key ibec_iv ibec_key :: string
    and kpp legacy :: bool and device extra_ramdisk :: "string option"
  defines "work \<equiv> mkdtemp e ''boot-''"
  assumes debug: "\<not> DEBUG e"
    and manifest: "read_manifest e (work @ ''/BuildManifest.plist'') = Some manifest"
    and version: "productBuildVersion manifest = Some version"
    and keys: "get_keys e device boardconfig version = (ibss_iv, ibss_key, ibec_iv, ibec_key)"
    and missing: "ibss_iv = [] \<or> ibss_key = [] \<or> ibec_iv = [] \<or> ibec_key = []"
    and ibss: "get_comp manifest boardconfig ''iBSS'' = Some ibss"
  defines "before \<equiv> trace s @
      [MkDir (work @ ''/ramdisk''),
       Stdout ''[*] Info: Unzipping IPSW'',
       ExtractAll ipsw work,
       Stdout ''[*] Info: Getting ProductBuildVersion'',
       Stderr ''[!] Error: Possible incorrect identifier or boardconfig'',
       Stdout ''[*] Info: Getting IBSS and IBEC'',
       Stdout ''[*] Info: Decrypting IBSS'']"
    and "decrypt_ibss \<equiv> [''img4'', ''-i'', work @ ''/'' @ ibss, ''-o'', work @ ''/ibss.dmg'', ''-k'', ibss_iv @ ibss_key]"
    and "decrypt_ibec \<equiv> [''img4'', ''-i'', work @ ''/'' @ ibec, ''-o'', work @ ''/ibec.dmg'', ''-k'', ibec_iv @ ibec_key]"
    and "final \<equiv> state_of (prep_boot e ipsw blob boardconfig kpp device legacy extra_ramdisk boot_arguments s)"
  shows "prefix (before @ [Subprocess decrypt_ibss]) (trace final) \<and>
         (fst (subprocess_run e before decrypt_ibss) \<le> 0 \<and>
          get_comp manifest boardconfig ''iBEC'' = Some ibec
          \<longrightarrow> prefix (before @ [Subprocess decrypt_ibss, Stdout ''[*] Info: Decrypting IBEC'',
                               Subprocess decrypt_ibec]) (trace final))"
proof -
  define s5 where "s5 = s\<lparr>atexit := atexit s @ [work],
      trace := trace s @
        [MkDir (work @ ''/ramdisk''),
         Stdout ''[*] Info: Unzipping IPSW'',
         ExtractAll ipsw work,
         Stdout ''[*] Info: Getting ProductBuildVersion'',
         Stderr ''[!] Error: Possible incorrect identifier or boardconfig'']\<rparr>"
  define s7 where "s7 = s5\<lparr>trace := before\<rparr>"
  define later where "later =
      [boot_devicetree e work
         (if \<not> legacy then get_comp manifest boardconfig ''StaticTrustCache'' else None)
         (get_comp manifest boardconfig ''DeviceTree'') legacy,
       boot_kernel e work (get_comp manifest boardconfig ''KernelCache'') kpp extra_ramdisk,
       if_given extra_ramdisk (boot_ramdisk e work manifest boardconfig),
       boot_finish e work kpp]"
  define loaders where "loaders = boot_loaders e work blob (Some ibss)
      (get_comp manifest boardconfig ''iBEC'') (ibss_iv, ibss_key, ibec_iv, ibec_key) boot_arguments"
  define patching where "patching =
      [print_info ''Patching IBSS'',
        run e [''iBoot64Patcher'', work @ ''/ibss.dmg'', work @ ''/ibss.patched''] False,
        print_info ''Patching IBEC'',
        run e [''iBoot64Patcher'', work @ ''/ibec.dmg'', work @ ''/ibec.patched'', ''-n'', ''-b'',
               ''-v '' @ boot_arguments] False,
        print_info ''Converting BLOB to IM4M'',
        run e [''img4tool'', ''-e'', ''-s'', blob, ''-m'', ''IM4M''] False,
        print_info ''Converting IBSS to IMG4'',
        run e [''img4'', ''-i'', work @ ''/ibss.patched'', ''-o'', work @ ''/ibss.img4'', ''-M'', ''IM4M'',
               ''-A'', ''-T'', ''ibss''] False,
        print_info ''Converting IBEC to IMG4'',
        run e [''img4'', ''-i'', work @ ''/ibec.patched'', ''-o'', work @ ''/ibec.img4'', ''-M'', ''IM4M'',
               ''-A'', ''-T'', ''ibec''] False]"
  define after_ibss where "after_ibss =
      print_info ''Decrypting IBEC'' #
      with_path work (get_comp manifest boardconfig ''iBEC'') (\<lambda>ibec_path.
          run e [''img4'', ''-i'', ibec_path, ''-o'', work @ ''/ibec.dmg'', ''-k'', ibec_iv @ ibec_key] False) #
      patching"
  have later: "\<And>g. g \<in> set later \<Longrightarrow> extends g"
    unfolding later_def
    by (auto simp: extends_boot_devicetree extends_boot_kernel extends_boot_finish
        intro!: extends_if_given extends_boot_ramdisk)
  have patching: "\<And>g. g \<in> set patching \<Longrightarrow> extends g"
    unfolding patching_def by (auto simp: extends_basic)
  have after_ibss: "\<And>g. g \<in> set after_ibss \<Longrightarrow> extends g"
    unfolding after_ibss_def using patching
    by (auto simp: extends_basic intro!: extends_with_path)
  have whole: "prep_boot e ipsw blob boardconfig kpp device legacy extra_ramdisk boot_arguments s
                 = seq (loaders # later) s5"
    using manifest version keys missing ibss
    by (simp add: work_def prep_boot_def Let_def seq_steps truthy_def s5_def loaders_def later_def
        del: seq.simps)
  have stage: "loaders s7' = seq (run e decrypt_ibss False # after_ibss)
                 (s7'\<lparr>trace := trace s7' @ [Stdout ''[*] Info: Getting IBSS and IBEC'',
                                             Stdout ''[*] Info: Decrypting IBSS'']\<rparr>)" for s7'
    by (simp add: loaders_def boot_loaders_def seq_steps with_path_def decrypt_ibss_def
        after_ibss_def patching_def del: seq.simps)
  have s7: "s5\<lparr>trace := trace s5 @ [Stdout ''[*] Info: Getting IBSS and IBEC'',
                                     Stdout ''[*] Info: Decrypting IBSS'']\<rparr> = s7"
    by (simp add: s7_def s5_def before_def)
  have t7: "trace s7 = before" by (simp add: s7_def)
  have stage5: "loaders s5 = seq (run e decrypt_ibss False # after_ibss) s7"
    using stage [of s5] by (simp only: s7)
  have first: "reaches (before @ [Subprocess decrypt_ibss]) (loaders s5)"
    unfolding stage5
    using reaches_seq_Cons [of "before @ [Subprocess decrypt_ibss]" "run e decrypt_ibss False" s7 after_ibss]
      reaches_run [OF debug, of s7 decrypt_ibss False] after_ibss
    by (simp add: t7 del: seq.simps)
  have one: "prefix (before @ [Subprocess decrypt_ibss]) (trace final)"
    using reaches_seq_Cons [of _ loaders s5 later, OF first later]
    by (simp add: final_def whole reaches_def del: seq.simps)
  have two: "prefix (before @ [Subprocess decrypt_ibss, Stdout ''[*] Info: Decrypting IBEC'',
                               Subprocess decrypt_ibec]) (trace final)"
    if ok: "fst (subprocess_run e before decrypt_ibss) \<le> 0"
      and ibec: "get_comp manifest boardconfig ''iBEC'' = Some ibec"
  proof -
    define s8 where "s8 = s7\<lparr>trace := before @ [Subprocess decrypt_ibss]\<rparr>"
    define s9 where "s9 = s7\<lparr>trace := before @ [Subprocess decrypt_ibss, Stdout ''[*] Info: Decrypting IBEC'']\<rparr>"
    have r: "run e decrypt_ibss False s7 = Ok () s8"
      using run_succeeds [OF debug, of s7 decrypt_ibss False] ok by (simp add: t7 s8_def)
    have "loaders s5 = seq after_ibss s8"
      unfolding stage5 by (simp add: r)
    also have "\<dots> = seq (run e decrypt_ibec False # patching) s9"
      by (simp add: after_ibss_def ibec seq_steps with_path_def decrypt_ibec_def s8_def s9_def
          del: seq.simps)
    finally have l: "loaders s5 = seq (run e decrypt_ibec False # patching) s9" .
    have "reaches (trace s9 @ [Subprocess decrypt_ibec]) (loaders s5)"
      unfolding l
      using reaches_seq_Cons [of "trace s9 @ [Subprocess decrypt_ibec]" "run e decrypt_ibec False" s9 patching]
        reaches_run [OF debug, of s9 decrypt_ibec False] patching
      by (simp del: seq.simps)
    then have "reaches (before @ [Subprocess decrypt_ibss, Stdout ''[*] Info: Decrypting IBEC'',
                               Subprocess decrypt_ibec]) (loaders s5)"
      by (simp add: s9_def)
    from reaches_seq_Cons [of _ loaders s5 later, OF this later] show ?thesis
      by (simp add: final_def whole reaches_def del: seq.simps)
  qed
  from one two show ?thesis by blast
qed

theorem missing_keys_warn_and_continue_witness:
  "prefix
     [MkDir ''/tmp/boot-k3x9/ramdisk'',
      Stdout ''[*] Info: Unzipping IPSW'',
      ExtractAll ''/home/u/fw.ipsw'' ''/tmp/boot-k3x9'',
      Stdout ''[*] Info: Getting ProductBuildVersion'',
      Stderr ''[!] Error: Possible incorrect identifier or boardconfig'',
      Stdout ''[*] Info: Getting IBSS and IBEC'',
      Stdout ''[*] Info: Decrypting IBSS'',
      Subprocess [''img4'', ''-i'', ''/tmp/boot-k3x9/Firmware/dfu/iBSS.d321.RELEASE.im4p'',
                  ''-o'', ''/tmp/boot-k3x9/ibss.dmg'', ''-k'', []],
      Stdout ''[*] Info: Decrypting IBEC'',
      Subprocess [''img4'', ''-i'', ''/tmp/boot-k3x9/Firmware/dfu/iBEC.d321.RELEASE.im4p'',
                  ''-o'', ''/tmp/boot-k3x9/ibec.dmg'', ''-k'', []]]
     (trace (state_of
        (prep_boot nokeys_env ''/home/u/fw.ipsw'' ''/home/u/blob.shsh2'' ''d321ap'' False
           (Some ''iPhone6,1'') False None [] initial)))"
proof -
  have d: "\<not> DEBUG nokeys_env"
    by (simp add: nokeys_env_def example_env_def)
  have m: "read_manifest nokeys_env (mkdtemp nokeys_env ''boot-'' @ ''/BuildManifest.plist'')
             = Some d321_manifest"
    by (simp add: nokeys_env_def)
  have v: "productBuildVersion d321_manifest = Some ''15G77''"
    by (simp add: d321_manifest_def)
  have k: "get_keys nokeys_env (Some ''iPhone6,1'') ''d321ap'' ''15G77'' = ([], [], [], [])"
    by (simp add: nokeys_env_def example_env_def)
  have i: "get_comp d321_manifest ''d321ap'' ''iBSS'' = Some ''Firmware/dfu/iBSS.d321.RELEASE.im4p''"
    by (simp add: get_comp_d321)
  have j: "get_comp d321_manifest ''d321ap'' ''iBEC'' = Some ''Firmware/dfu/iBEC.d321.RELEASE.im4p''"
    by (simp add: get_comp_d321)
  have r: "fst (subprocess_run nokeys_env history arguments) \<le> 0" for history arguments
    by (simp add: nokeys_env_def example_env_def)
  show ?thesis
    using missing_keys_warn_and_continue [OF d m v k _ i,
        where ibec = "''Firmware/dfu/iBEC.d321.RELEASE.im4p''" and s = initial
          and ipsw = "''/home/u/fw.ipsw''" and blob = "''/home/u/blob.shsh2''"
          and kpp = False and legacy = False and extra_ramdisk = None and boot_arguments = "[]"] j r
    by (simp add: nokeys_env_def example_env_def initial_def)
qed

text \<open>
  Claim C5, as stated: a component lookup that yields no path (other than the
  \<^verbatim>\<open>RestoreRamDisk\<close> board check) is surfaced as a warning, is not fatal where it is
  resolved, and fails only at the later stage that needs the value. The code has no
  warning for such a miss: neither flow tests the value \<^verbatim>\<open>get_comp\<close> returned, apart
  from the \<^verbatim>\<open>RestoreRamDisk\<close> check. In the BootFlow run below the board has no
  \<^verbatim>\<open>iBSS\<close> entry and all four keys are known; nothing is written to the error stream,
  and the run ends in an uncaught \<^verbatim>\<open>TypeError\<close> at the first decrypt step.
\<close>

theorem unresolved_component_gives_no_warning:
  "get_comp bare_manifest ''d321ap'' ''iBSS'' = None \<and>
   prep_boot bare_env ''/home/u/fw.ipsw'' ''/home/u/blob.shsh2'' ''d321ap'' False
       (Some ''iPhone6,1'') False None [] initial
     = Halt (Uncaught TypeError)
         \<lparr> trace =
             [MkDir ''/tmp/boot-k3x9/ramdisk'',
              Stdout ''[*] Info: Unzipping IPSW'',
              ExtractAll ''/home/u/fw.ipsw'' ''/tmp/boot-k3x9'',
              Stdout ''[*] Info: Getting ProductBuildVersion'',
              Stdout ''[*] Info: Getting IBSS and IBEC'',
              Stdout ''[*] Info: Decrypting IBSS''],
           atexit = [''/tmp/boot-k3x9''] \<rparr> \<and>
   \<not> list_ex is_stderr
       (trace (state_of
          (prep_boot bare_env ''/home/u/fw.ipsw'' ''/home/u/blob.shsh2'' ''d321ap'' False
             (Some ''iPhone6,1'') False None [] initial)))"
proof -
  have g: "get_comp bare_manifest ''d321ap'' name = map_of [(''RestoreRamDisk'', ''090-1111-100.dmg'')] name"
    for name
    by (simp add: get_comp_def bare_manifest_def lower_d321ap)
  have productBuildVersion_bare: "productBuildVersion bare_manifest = Some ''15G77''"
    by (simp add: bare_manifest_def)
  have r: "prep_boot bare_env ''/home/u/fw.ipsw'' ''/home/u/blob.shsh2'' ''d321ap'' False
       (Some ''iPhone6,1'') False None [] initial
     = Halt (Uncaught TypeError)
         \<lparr> trace =
             [MkDir ''/tmp/boot-k3x9/ramdisk'',
              Stdout ''[*] Info: Unzipping IPSW'',
              ExtractAll ''/home/u/fw.ipsw'' ''/tmp/boot-k3x9'',
              Stdout ''[*] Info: Getting ProductBuildVersion'',
              Stdout ''[*] Info: Getting IBSS and IBEC'',
              Stdout ''[*] Info: Decrypting IBSS''],
           atexit = [''/tmp/boot-k3x9''] \<rparr>"
    by (simp add: prep_boot_def boot_loaders_def step_defs truthy_def bare_env_def example_env_def
        g initial_def productBuildVersion_bare)
  show ?thesis
    by (simp add: r g)
qed

text \<open>
  Claim C5, amended: a component lookup that yields no path, other than the
  \<^verbatim>\<open>RestoreRamDisk\<close> board check, is not fatal where it is resolved and nothing is
  reported for it; the run goes on to the stage that builds a path from the missing value
  and ends there with an uncaught \<^verbatim>\<open>TypeError\<close>. The whole run of \<^verbatim>\<open>prep_boot\<close> and of
  \<^verbatim>\<open>prep_restore\<close> is given, from an arbitrary state, in an arbitrary environment whose
  bundle holds a manifest (with a build version and, for RestoreFlow, a ramdisk for the
  board): it is the run of the stages before the one that needs the value, whatever
  their commands return, followed by that stage's announcements and the \<^verbatim>\<open>TypeError\<close>.
  For \<^verbatim>\<open>iBSS\<close> no stage comes before; for \<^verbatim>\<open>DeviceTree\<close> the loaders stage does; for
  \<^verbatim>\<open>KernelCache\<close> the loaders and device tree stages do; for \<^verbatim>\<open>RestoreKernelCache\<close> the
  five ramdisk stages do. For \<^verbatim>\<open>iBEC\<close> and, outside legacy mode, \<^verbatim>\<open>StaticTrustCache\<close>, the
  command of the component resolved with them runs first, and when it succeeds the next
  announcement is printed and the run stops. In the runs of the instance every command
  succeeds and all four keys are known.
\<close>

theorem unresolved_component_deferred_to_its_stage:
  fixes e :: env and s :: state
    and ipsw blob boardconfig boot_arguments ibss ibss_iv ibss_key ibec_iv ibec_key devicetree
        ramdisk_path version :: string
    and kpp legacy skip_baseband :: bool and device extra_ramdisk :: "string option"
    and manifest :: BuildManifest
  defines "work \<equiv> mkdtemp e ''boot-''"
    and "rwork \<equiv> mkdtemp e ''restore-''"
    and "keys \<equiv> (ibss_iv, ibss_key, ibec_iv, ibec_key)"
  defines "parsed \<equiv> read_manifest e (work @ ''/BuildManifest.plist'') = Some manifest \<and>
      productBuildVersion manifest = Some version \<and>
      get_keys e device boardconfig version = keys"
    and "boot \<equiv> prep_boot e ipsw blob boardconfig kpp device legacy extra_ramdisk boot_arguments s"
    and "loaders \<equiv> boot_loaders e work blob (get_comp manifest boardconfig ''iBSS'')
      (get_comp manifest boardconfig ''iBEC'') keys boot_arguments"
  shows
  "(parsed \<and> get_comp manifest boardconfig ''iBSS'' = None \<longrightarrow>
      boot = type_error_after
               [Stdout ''[*] Info: Getting IBSS and IBEC'', Stdout ''[*] Info: Decrypting IBSS'']
               (boot_started e ipsw keys s))
   \<and>
   (parsed \<and> get_comp manifest boardconfig ''iBSS'' = Some ibss \<and>
    get_comp manifest boardconfig ''iBEC'' = None \<longrightarrow>
      boot = and_then
               (run e [''img4'', ''-i'', work @ ''/'' @ ibss, ''-o'', work @ ''/ibss.dmg'', ''-k'',
                       ibss_iv @ ibss_key] False
                  (logged [Stdout ''[*] Info: Getting IBSS and IBEC'',
                           Stdout ''[*] Info: Decrypting IBSS''] (boot_started e ipsw keys s)))
               (\<lambda>_. type_error_after [Stdout ''[*] Info: Decrypting IBEC'']))
   \<and>
   (parsed \<and> get_comp manifest boardconfig ''DeviceTree'' = None \<longrightarrow>
      boot = and_then (loaders (boot_started e ipsw keys s))
               (\<lambda>_. type_error_after [Stdout ''[*] Info: Getting Device Tree and TrustCache'',
                                      Stdout ''[*] Info: Signing Device Tree'']))
   \<and>
   (parsed \<and> \<not> legacy \<and> get_comp manifest boardconfig ''DeviceTree'' = Some devicetree \<and>
    get_comp manifest boardconfig ''StaticTrustCache'' = None \<longrightarrow>
      boot = and_then (loaders (boot_started e ipsw keys s))
               (\<lambda>_ s1. and_then
                  (run e [''img4'', ''-i'', work @ ''/'' @ devicetree, ''-o'', work @ ''/devicetree.img4'',
                          ''-M'', ''IM4M'', ''-T'', ''rdtr''] False
                     (logged [Stdout ''[*] Info: Getting Device Tree and TrustCache'',
                              Stdout ''[*] Info: Signing Device Tree''] s1))
                  (\<lambda>_. type_error_after [Stdout ''[*] Info: Signing Trust Cache''])))
   \<and>
   (parsed \<and> get_comp manifest boardconfig ''KernelCache'' = None \<longrightarrow>
      boot = and_then
               (seq [loaders,
                     boot_devicetree e work
                       (if \<not> legacy then get_comp manifest boardconfig ''StaticTrustCache'' else None)
                       (get_comp manifest boardconfig ''DeviceTree'') legacy]
                  (boot_started e ipsw keys s))
               (\<lambda>_. type_error_after [Stdout ''[*] Info: Getting Kernel Cache'',
                                      Stdout ''[*] Info: Extracting Kernel'']))
   \<and>
   (read_manifest e (rwork @ ''/BuildManifest.plist'') = Some manifest \<and>
    get_comp manifest boardconfig ''RestoreRamDisk'' = Some ramdisk_path \<and>
    get_comp manifest boardconfig ''RestoreKernelCache'' = None \<longrightarrow>
      prep_restore e ipsw blob boardconfig kpp legacy skip_baseband extra_ramdisk s
        = and_then
            (seq [restore_mount e rwork ramdisk_path,
                  if_given extra_ramdisk (unpack_extra_ramdisk e rwork),
                  restore_patch_asr e rwork,
                  restore_patch_restored_external e rwork legacy,
                  restore_seal e rwork extra_ramdisk]
               (restore_started e ipsw s))
            (\<lambda>_. type_error_after [Stdout ''[*] Info: Extracting Kernel'']))"
proof (intro conjI impI)
  assume a: "parsed \<and> get_comp manifest boardconfig ''iBSS'' = None"
  then have p: "read_manifest e (mkdtemp e ''boot-'' @ ''/BuildManifest.plist'') = Some manifest"
      "productBuildVersion manifest = Some version" "get_keys e device boardconfig version = keys"
    by (simp_all add: parsed_def work_def)
  show "boot = type_error_after
               [Stdout ''[*] Info: Getting IBSS and IBEC'', Stdout ''[*] Info: Decrypting IBSS'']
               (boot_started e ipsw keys s)"
    unfolding boot_def boot_prelude [OF p]
    using a by (simp add: loaders_without_ibss type_error_after_first del: seq.simps)
next
  assume a: "parsed \<and> get_comp manifest boardconfig ''iBSS'' = Some ibss \<and>
    get_comp manifest boardconfig ''iBEC'' = None"
  then have p: "read_manifest e (mkdtemp e ''boot-'' @ ''/BuildManifest.plist'') = Some manifest"
      "productBuildVersion manifest = Some version" "get_keys e device boardconfig version = keys"
    by (simp_all add: parsed_def work_def)
  show "boot = and_then
               (run e [''img4'', ''-i'', work @ ''/'' @ ibss, ''-o'', work @ ''/ibss.dmg'', ''-k'',
                       ibss_iv @ ibss_key] False
                  (logged [Stdout ''[*] Info: Getting IBSS and IBEC'',
                           Stdout ''[*] Info: Decrypting IBSS''] (boot_started e ipsw keys s)))
               (\<lambda>_. type_error_after [Stdout ''[*] Info: Decrypting IBEC''])"
    unfolding boot_def boot_prelude [OF p]
    using a
    by (simp add: keys_def work_def loaders_without_ibec seq_first_then_type_error del: seq.simps)
next
  assume a: "parsed \<and> get_comp manifest boardconfig ''DeviceTree'' = None"
  then have p: "read_manifest e (mkdtemp e ''boot-'' @ ''/BuildManifest.plist'') = Some manifest"
      "productBuildVersion manifest = Some version" "get_keys e device boardconfig version = keys"
    by (simp_all add: parsed_def work_def)
  show "boot = and_then (loaders (boot_started e ipsw keys s))
               (\<lambda>_. type_error_after [Stdout ''[*] Info: Getting Device Tree and TrustCache'',
                                      Stdout ''[*] Info: Signing Device Tree''])"
    unfolding boot_def boot_prelude [OF p]
    using a seq_until_type_error [of "[loaders]"]
    by (simp add: loaders_def work_def devicetree_without_devicetree seq_single del: seq.simps)
next
  assume a: "parsed \<and> \<not> legacy \<and> get_comp manifest boardconfig ''DeviceTree'' = Some devicetree \<and>
    get_comp manifest boardconfig ''StaticTrustCache'' = None"
  then have p: "read_manifest e (mkdtemp e ''boot-'' @ ''/BuildManifest.plist'') = Some manifest"
      "productBuildVersion manifest = Some version" "get_keys e device boardconfig version = keys"
    by (simp_all add: parsed_def work_def)
  have "seq (loaders # (\<lambda>s1. and_then (f s1) (\<lambda>_. type_error_after evs)) # ys) s0
          = and_then (loaders s0) (\<lambda>_ s1. and_then (f s1) (\<lambda>_. type_error_after evs))"
    for f :: "state \<Rightarrow> unit result" and evs ys s0
    by (simp only: seq_Cons_fun [of loaders] seq_first_then_type_error)
  then show "boot = and_then (loaders (boot_started e ipsw keys s))
               (\<lambda>_ s1. and_then
                  (run e [''img4'', ''-i'', work @ ''/'' @ devicetree, ''-o'', work @ ''/devicetree.img4'',
                          ''-M'', ''IM4M'', ''-T'', ''rdtr''] False
                     (logged [Stdout ''[*] Info: Getting Device Tree and TrustCache'',
                              Stdout ''[*] Info: Signing Device Tree''] s1))
                  (\<lambda>_. type_error_after [Stdout ''[*] Info: Signing Trust Cache'']))"
    unfolding boot_def boot_prelude [OF p]
    using a
    by (simp add: loaders_def work_def devicetree_without_trustcache del: seq.simps)
next
  assume a: "parsed \<and> get_comp manifest boardconfig ''KernelCache'' = None"
  then have p: "read_manifest e (mkdtemp e ''boot-'' @ ''/BuildManifest.plist'') = Some manifest"
      "productBuildVersion manifest = Some version" "get_keys e device boardconfig version = keys"
    by (simp_all add: parsed_def work_def)
  show "boot = and_then
               (seq [loaders,
                     boot_devicetree e work
                       (if \<not> legacy then get_comp manifest boardconfig ''StaticTrustCache'' else None)
                       (get_comp manifest boardconfig ''DeviceTree'') legacy]
                  (boot_started e ipsw keys s))
               (\<lambda>_. type_error_after [Stdout ''[*] Info: Getting Kernel Cache'',
                                      Stdout ''[*] Info: Extracting Kernel''])"
    unfolding boot_def boot_prelude [OF p]
    using a seq_until_type_error [of "[loaders,
                     boot_devicetree e work
                       (if \<not> legacy then get_comp manifest boardconfig ''StaticTrustCache'' else None)
                       (get_comp manifest boardconfig ''DeviceTree'') legacy]"]
    by (simp add: loaders_def work_def kernel_without_kernelcache del: seq.simps)
next
  assume a: "read_manifest e (rwork @ ''/BuildManifest.plist'') = Some manifest \<and>
    get_comp manifest boardconfig ''RestoreRamDisk'' = Some ramdisk_path \<and>
    get_comp manifest boardconfig ''RestoreKernelCache'' = None"
  then have p: "read_manifest e (mkdtemp e ''restore-'' @ ''/BuildManifest.plist'') = Some manifest"
      "get_comp manifest boardconfig ''RestoreRamDisk'' = Some ramdisk_path"
    by (simp_all add: rwork_def)
  show "prep_restore e ipsw blob boardconfig kpp legacy skip_baseband extra_ramdisk s
        = and_then
            (seq [restore_mount e rwork ramdisk_path,
                  if_given extra_ramdisk (unpack_extra_ramdisk e rwork),
                  restore_patch_asr e rwork,
                  restore_patch_restored_external e rwork legacy,
                  restore_seal e rwork extra_ramdisk]
               (restore_started e ipsw s))
            (\<lambda>_. type_error_after [Stdout ''[*] Info: Extracting Kernel''])"
    unfolding restore_prelude [OF p]
    using a seq_until_type_error [of "[restore_mount e rwork ramdisk_path,
                  if_given extra_ramdisk (unpack_extra_ramdisk e rwork),
                  restore_patch_asr e rwork,
                  restore_patch_restored_external e rwork legacy,
                  restore_seal e rwork extra_ramdisk]"]
    by (simp add: rwork_def restore_kernel_without_kernelcache del: seq.simps)
qed

theorem unresolved_component_deferred_to_its_stage_witness:
  "prep_boot (bundle_env bare_manifest) ''/home/u/fw.ipsw'' ''/home/u/blob.shsh2'' ''d321ap'' False
       (Some ''iPhone6,1'') False None [] initial
     = Halt (Uncaught TypeError)
         \<lparr> trace =
             [MkDir ''/tmp/boot-k3x9/ramdisk'',
              Stdout ''[*] Info: Unzipping IPSW'',
              ExtractAll ''/home/u/fw.ipsw'' ''/tmp/boot-k3x9'',
              Stdout ''[*] Info: Getting ProductBuildVersion'',
              Stdout ''[*] Info: Getting IBSS and IBEC'',
              Stdout ''[*] Info: Decrypting IBSS''],
           atexit = [''/tmp/boot-k3x9''] \<rparr>
   \<and>
   prep_boot (bundle_env ibss_only_manifest) ''/home/u/fw.ipsw'' ''/home/u/blob.shsh2'' ''d321ap'' False
       (Some ''iPhone6,1'') False None [] initial
     = Halt (Uncaught TypeError)
         \<lparr> trace =
             [MkDir ''/tmp/boot-k3x9/ramdisk'',
              Stdout ''[*] Info: Unzipping IPSW'',
              ExtractAll ''/home/u/fw.ipsw'' ''/tmp/boot-k3x9'',
              Stdout ''[*] Info: Getting ProductBuildVersion'',
              Stdout ''[*] Info: Getting IBSS and IBEC'',
              Stdout ''[*] Info: Decrypting IBSS'',
              Subprocess [''img4'', ''-i'', ''/tmp/boot-k3x9/Firmware/dfu/iBSS.d321.RELEASE.im4p'',
                          ''-o'', ''/tmp/boot-k3x9/ibss.dmg'', ''-k'', ''a1b2c3d4''],
              Stdout ''[*] Info: Decrypting IBEC''],
           atexit = [''/tmp/boot-k3x9''] \<rparr>
   \<and>
   prep_boot (bundle_env loaders_only_manifest) ''/home/u/fw.ipsw'' ''/home/u/blob.shsh2'' ''d321ap'' False
       (Some ''iPhone6,1'') False None [] initial
     = Halt (Uncaught TypeError)
         \<lparr> trace =
             [MkDir ''/tmp/boot-k3x9/ramdisk'',
              Stdout ''[*] Info: Unzipping IPSW'',
              ExtractAll ''/home/u/fw.ipsw'' ''/tmp/boot-k3x9'',
              Stdout ''[*] Info: Getting ProductBuildVersion'',
              Stdout ''[*] Info: Getting IBSS and IBEC'',
              Stdout ''[*] Info: Decrypting IBSS'',
              Subprocess [''img4'', ''-i'', ''/tmp/boot-k3x9/Firmware/dfu/iBSS.d321.RELEASE.im4p'',
                          ''-o'', ''/tmp/boot-k3x9/ibss.dmg'', ''-k'', ''a1b2c3d4''],
              Stdout ''[*] Info: Decrypting IBEC'',
              Subprocess [''img4'', ''-i'', ''/tmp/boot-k3x9/Firmware/dfu/iBEC.d321.RELEASE.im4p'',
                          ''-o'', ''/tmp/boot-k3x9/ibec.dmg'', ''-k'', ''e5f60789''],
              Stdout ''[*] Info: Patching IBSS'',
              Subprocess [''iBoot64Patcher'', ''/tmp/boot-k3x9/ibss.dmg'', ''/tmp/boot-k3x9/ibss.patched''],
              Stdout ''[*] Info: Patching IBEC'',
              Subprocess [''iBoot64Patcher'', ''/tmp/boot-k3x9/ibec.dmg'', ''/tmp/boot-k3x9/ibec.patched'',
                          ''-n'', ''-b'', ''-v ''],
              Stdout ''[*] Info: Converting BLOB to IM4M'',
              Subprocess [''img4tool'', ''-e'', ''-s'', ''/home/u/blob.shsh2'', ''-m'', ''IM4M''],
              Stdout ''[*] Info: Converting IBSS to IMG4'',
              Subprocess [''img4'', ''-i'', ''/tmp/boot-k3x9/ibss.patched'', ''-o'', ''/tmp/boot-k3x9/ibss.img4'',
                          ''-M'', ''IM4M'', ''-A'', ''-T'', ''ibss''],
              Stdout ''[*] Info: Converting IBEC to IMG4'',
              Subprocess [''img4'', ''-i'', ''/tmp/boot-k3x9/ibec.patched'', ''-o'', ''/tmp/boot-k3x9/ibec.img4'',
                          ''-M'', ''IM4M'', ''-A'', ''-T'', ''ibec''],
              Stdout ''[*] Info: Getting Device Tree and TrustCache'',
              Stdout ''[*] Info: Signing Device Tree''],
           atexit = [''/tmp/boot-k3x9''] \<rparr>
   \<and>
   prep_boot (bundle_env d321_manifest) ''/home/u/fw.ipsw'' ''/home/u/blob.shsh2'' ''d321ap'' False
       (Some ''iPhone6,1'') False None [] initial
     = Halt (Uncaught TypeError)
         \<lparr> trace =
             [MkDir ''/tmp/boot-k3x9/ramdisk'',
              Stdout ''[*] Info: Unzipping IPSW'',
              ExtractAll ''/home/u/fw.ipsw'' ''/tmp/boot-k3x9'',
              Stdout ''[*] Info: Getting ProductBuildVersion'',
              Stdout ''[*] Info: Getting IBSS and IBEC'',
              Stdout ''[*] Info: Decrypting IBSS'',
              Subprocess [''img4'', ''-i'', ''/tmp/boot-k3x9/Firmware/dfu/iBSS.d321.RELEASE.im4p'',
                          ''-o'', ''/tmp/boot-k3x9/ibss.dmg'', ''-k'', ''a1b2c3d4''],
              Stdout ''[*] Info: Decrypting IBEC'',
              Subprocess [''img4'', ''-i'', ''/tmp/boot-k3x9/Firmware/dfu/iBEC.d321.RELEASE.im4p'',
                          ''-o'', ''/tmp/boot-k3x9/ibec.dmg'', ''-k'', ''e5f60789''],
              Stdout ''[*] Info: Patching IBSS'',
              Subprocess [''iBoot64Patcher'', ''/tmp/boot-k3x9/ibss.dmg'', ''/tmp/boot-k3x9/ibss.patched''],
              Stdout ''[*] Info: Patching IBEC'',
              Subprocess [''iBoot64Patcher'', ''/tmp/boot-k3x9/ibec.dmg'', ''/tmp/boot-k3x9/ibec.patched'',
                          ''-n'', ''-b'', ''-v ''],
              Stdout ''[*] Info: Converting BLOB to IM4M'',
              Subprocess [''img4tool'', ''-e'', ''-s'', ''/home/u/blob.shsh2'', ''-m'', ''IM4M''],
              Stdout ''[*] Info: Converting IBSS to IMG4'',
              Subprocess [''img4'', ''-i'', ''/tmp/boot-k3x9/ibss.patched'', ''-o'', ''/tmp/boot-k3x9/ibss.img4'',
                          ''-M'', ''IM4M'', ''-A'', ''-T'', ''ibss''],
              Stdout ''[*] Info: Converting IBEC to IMG4'',
              Subprocess [''img4'', ''-i'', ''/tmp/boot-k3x9/ibec.patched'', ''-o'', ''/tmp/boot-k3x9/ibec.img4'',
                          ''-M'', ''IM4M'', ''-A'', ''-T'', ''ibec''],
              Stdout ''[*] Info: Getting Device Tree and TrustCache'',
              Stdout ''[*] Info: Signing Device Tree'',
              Subprocess [''img4'', ''-i'', ''/tmp/boot-k3x9/Firmware/all_flash/DeviceTree.d321ap.im4p'',
                          ''-o'', ''/tmp/boot-k3x9/devicetree.img4'', ''-M'', ''IM4M'', ''-T'', ''rdtr''],
              Stdout ''[*] Info: Signing Trust Cache''],
           atexit = [''/tmp/boot-k3x9''] \<rparr>
   \<and>
   prep_boot (bundle_env no_kernel_manifest) ''/home/u/fw.ipsw'' ''/home/u/blob.shsh2'' ''d321ap'' False
       (Some ''iPhone6,1'') True None [] initial
     = Halt (Uncaught TypeError)
         \<lparr> trace =
             [MkDir ''/tmp/boot-k3x9/ramdisk'',
              Stdout ''[*] Info: Unzipping IPSW'',
              ExtractAll ''/home/u/fw.ipsw'' ''/tmp/boot-k3x9'',
              Stdout ''[*] Info: Getting ProductBuildVersion'',
              Stdout ''[*] Info: Getting IBSS and IBEC'',
              Stdout ''[*] Info: Decrypting IBSS'',
              Subprocess [''img4'', ''-i'', ''/tmp/boot-k3x9/Firmware/dfu/iBSS.d321.RELEASE.im4p'',
                          ''-o'', ''/tmp/boot-k3x9/ibss.dmg'', ''-k'', ''a1b2c3d4''],
              Stdout ''[*] Info: Decrypting IBEC'',
              Subprocess [''img4'', ''-i'', ''/tmp/boot-k3x9/Firmware/dfu/iBEC.d321.RELEASE.im4p'',
                          ''-o'', ''/tmp/boot-k3x9/ibec.dmg'', ''-k'', ''e5f60789''],
              Stdout ''[*] Info: Patching IBSS'',
              Subprocess [''iBoot64Patcher'', ''/tmp/boot-k3x9/ibss.dmg'', ''/tmp/boot-k3x9/ibss.patched''],
              Stdout ''[*] Info: Patching IBEC'',
              Subprocess [''iBoot64Patcher'', ''/tmp/boot-k3x9/ibec.dmg'', ''/tmp/boot-k3x9/ibec.patched'',
                          ''-n'', ''-b'', ''-v ''],
              Stdout ''[*] Info: Converting BLOB to IM4M'',
              Subprocess [''img4tool'', ''-e'', ''-s'', ''/home/u/blob.shsh2'', ''-m'', ''IM4M''],
              Stdout ''[*] Info: Converting IBSS to IMG4'',
              Subprocess [''img4'', ''-i'', ''/tmp/boot-k3x9/ibss.patched'', ''-o'', ''/tmp/boot-k3x9/ibss.img4'',
                          ''-M'', ''IM4M'', ''-A'', ''-T'', ''ibss''],
              Stdout ''[*] Info: Converting IBEC to IMG4'',
              Subprocess [''img4'', ''-i'', ''/tmp/boot-k3x9/ibec.patched'', ''-o'', ''/tmp/boot-k3x9/ibec.img4'',
                          ''-M'', ''IM4M'', ''-A'', ''-T'', ''ibec''],
              Stdout ''[*] Info: Getting Device Tree and TrustCache'',
              Stdout ''[*] Info: Signing Device Tree'',
              Subprocess [''img4'', ''-i'', ''/tmp/boot-k3x9/Firmware/all_flash/DeviceTree.d321ap.im4p'',
                          ''-o'', ''/tmp/boot-k3x9/devicetree.img4'', ''-M'', ''IM4M'', ''-T'', ''rdtr''],
              Stdout ''[*] Info: Getting Kernel Cache'',
              Stdout ''[*] Info: Extracting Kernel''],
           atexit = [''/tmp/boot-k3x9''] \<rparr>
   \<and>
   prep_restore (bundle_env bare_manifest) ''/home/u/fw.ipsw'' ''/home/u/blob.shsh2'' ''d321ap'' False
       False False None initial
     = Halt (Uncaught TypeError)
         \<lparr> trace =
             [MkDir ''/tmp/restore-k3x9/ramdisk'',
              Stdout ''[*] Info: Extracting IPSW'',
              ExtractAll ''/home/u/fw.ipsw'' ''/tmp/restore-k3x9'',
              Stdout ''[*] Info: Extracting RamDisk'',
              Subprocess [''img4'', ''-i'', ''/tmp/restore-k3x9/090-1111-100.dmg'', ''-o'',
                          ''/tmp/restore-k3x9/ramdisk.dmg''],
              Stdout ''[*] Info: Mounting RamDisk'',
              MkDir ''/tmp/restore-k3x9/ramdisk/usr/sbin/'',
              MkDir ''/tmp/restore-k3x9/ramdisk/usr/local/bin/'',
              Subprocess [''hfsplus'', ''/tmp/restore-k3x9/ramdisk.dmg'', ''extract'', ''/usr/sbin/asr'',
                          ''/tmp/restore-k3x9/ramdisk/usr/sbin/asr''],
              Subprocess [''hfsplus'', ''/tmp/restore-k3x9/ramdisk.dmg'', ''extract'',
                          ''/usr/local/bin/restored_external'',
                          ''/tmp/restore-k3x9/ramdisk/usr/local/bin/restored_external''],
              Subprocess [''hfsplus'', ''/tmp/restore-k3x9/ramdisk.dmg'', ''rm'', ''/usr/sbin/asr''],
              Subprocess [''hfsplus'', ''/tmp/restore-k3x9/ramdisk.dmg'', ''rm'',
                          ''/usr/local/bin/restored_external''],
              Stdout ''[*] Info: Patching ASR in the RamDisk'',
              Subprocess [''asr64_patcher'', ''/tmp/restore-k3x9/ramdisk/usr/sbin/asr'',
                          ''/tmp/restore-k3x9/patched_asr''],
              Stdout ''[*] Info: Extracting ASR Ents'',
              Subprocess [''ldid'', ''-e'', ''/tmp/restore-k3x9/ramdisk/usr/sbin/asr''],
              WriteFile ''/tmp/restore-k3x9/asr.plist'' [],
              Stdout ''[*] Info: Resigning ASR'',
              Subprocess [''ldid'', ''-S/tmp/restore-k3x9/asr.plist'', ''/tmp/restore-k3x9/patched_asr''],
              Stdout ''[*] Info: Chmoding ASR'',
              Subprocess [''chmod'', ''-R'', ''755'', ''/tmp/restore-k3x9/patched_asr''],
              Stdout ''[*] Info: Copying Patched ASR back to the RamDisk'',
              Subprocess [''cp'', ''/tmp/restore-k3x9/patched_asr'', ''/tmp/restore-k3x9/ramdisk/usr/sbin/asr''],
              Stdout ''[*] Info: Patching Restored External'',
              Subprocess [''restored_external64_patcher'',
                          ''/tmp/restore-k3x9/ramdisk/usr/local/bin/restored_external'',
                          ''/tmp/restore-k3x9/restored_external_patched''],
              Stdout ''[*] Info: Extracting Restored External Ents'',
              Subprocess [''ldid'', ''-e'', ''/tmp/restore-k3x9/ramdisk/usr/local/bin/restored_external''],
              WriteFile ''/tmp/restore-k3x9/restored_external.plist'' [],
              Stdout ''[*] Info: Resigning Restored External'',
              Subprocess [''ldid'', ''-S/tmp/restore-k3x9/restored_external.plist'',
                          ''/tmp/restore-k3x9/restored_external_patched''],
              Stdout ''[*] Info: Chmoding Restored External'',
              Subprocess [''chmod'', ''-R'', ''755'', ''/tmp/restore-k3x9/restored_external_patched''],
              Stdout ''[*] Info: Copying Patched Restored External back to the RamDisk'',
              Subprocess [''cp'', ''/tmp/restore-k3x9/restored_external_patched'',
                          ''/tmp/restore-k3x9/ramdisk/usr/local/bin/restored_external''],
              Stdout ''[*] Info: Detaching RamDisk'',
              Subprocess [''hfsplus'', ''/tmp/restore-k3x9/ramdisk.dmg'', ''add'',
                          ''/tmp/restore-k3x9/ramdisk/usr/sbin/asr'', ''/usr/sbin/asr''],
              Subprocess [''hfsplus'', ''/tmp/restore-k3x9/ramdisk.dmg'', ''add'',
                          ''/tmp/restore-k3x9/ramdisk/usr/local/bin/restored_external'',
                          ''/usr/local/bin/restored_external''],
              Subprocess [''hfsplus'', ''/tmp/restore-k3x9/ramdisk.dmg'', ''chmod'', ''100755'', ''/usr/sbin/asr''],
              Subprocess [''hfsplus'', ''/tmp/restore-k3x9/ramdisk.dmg'', ''chmod'', ''100755'',
                          ''/usr/local/bin/restored_external''],
              Stdout ''[*] Info: Creating RamDisk'',
              Subprocess [''/usr/bin/python3'', ''-m'', ''pyimg4'', ''im4p'', ''create'', ''-i'',
                          ''/tmp/restore-k3x9/ramdisk.dmg'', ''-o'', ''/tmp/restore-k3x9/ramdisk.im4p'',
                          ''-f'', ''rdsk''],
              Stdout ''[*] Info: Extracting Kernel''],
           atexit = [''/tmp/restore-k3x9''] \<rparr>"
  (is "?r1 \<and> ?r2 \<and> ?r3 \<and> ?r4 \<and> ?r5 \<and> ?r6")
proof -
  note env = bundle_env_def bare_env_def example_env_def
  note run = unresolved_component_deferred_to_its_stage
      [where s = initial and boardconfig = "''d321ap''" and version = "''15G77''"
         and device = "Some ''iPhone6,1''"
         and ibss_iv = "''a1b2''" and ibss_key = "''c3d4''" and ibec_iv = "''e5f6''" and ibec_key = "''0789''"
         and ipsw = "''/home/u/fw.ipsw''" and blob = "''/home/u/blob.shsh2''" and kpp = False
         and extra_ramdisk = None and boot_arguments = "[]" and skip_baseband = False
         and ibss = "''Firmware/dfu/iBSS.d321.RELEASE.im4p''"
         and devicetree = "''Firmware/all_flash/DeviceTree.d321ap.im4p''"
         and ramdisk_path = "''090-1111-100.dmg''"]
  note stages = boot_loaders_def boot_devicetree_def restore_mount_def restore_patch_asr_def
      restore_patch_restored_external_def restore_seal_def linux_hfsplus_sync_def
      boot_started_def restore_started_def type_error_after_def logged_def step_defs truthy_def
  have version: "productBuildVersion bare_manifest = Some ''15G77''"
      "productBuildVersion ibss_only_manifest = Some ''15G77''"
      "productBuildVersion loaders_only_manifest = Some ''15G77''"
      "productBuildVersion d321_manifest = Some ''15G77''"
      "productBuildVersion no_kernel_manifest = Some ''15G77''"
    by (simp_all add: bare_manifest_def ibss_only_manifest_def loaders_only_manifest_def
        d321_manifest_def no_kernel_manifest_def)
  have 1: ?r1
    using run [where e = "bundle_env bare_manifest" and manifest = bare_manifest and legacy = False,
        THEN conjunct1]
    by (simp add: env get_comp_bare version initial_def stages)
  have 2: ?r2
    using run [where e = "bundle_env ibss_only_manifest" and manifest = ibss_only_manifest
        and legacy = False,
        THEN conjunct2, THEN conjunct1]
    by (simp add: env get_comp_ibss_only version initial_def stages)
  have 3: ?r3
    using run [where e = "bundle_env loaders_only_manifest" and manifest = loaders_only_manifest
        and legacy = False,
        THEN conjunct2, THEN conjunct2, THEN conjunct1]
    by (simp add: env get_comp_loaders_only version initial_def stages)
  have 4: ?r4
    using run [where e = "bundle_env d321_manifest" and manifest = d321_manifest and legacy = False,
        THEN conjunct2, THEN conjunct2, THEN conjunct2, THEN conjunct1]
    by (simp add: env get_comp_d321 version initial_def stages)
  have 5: ?r5
    using run [where e = "bundle_env no_kernel_manifest" and manifest = no_kernel_manifest
        and legacy = True,
        THEN conjunct2, THEN conjunct2, THEN conjunct2, THEN conjunct2, THEN conjunct1]
    by (simp add: env get_comp_no_kernel version initial_def stages)
  have 6: ?r6
    using run [where e = "bundle_env bare_manifest" and manifest = bare_manifest and legacy = False,
        THEN conjunct2, THEN conjunct2, THEN conjunct2, THEN conjunct2, THEN conjunct2]
    by (simp add: env get_comp_bare version initial_def stages)
  from 1 2 3 4 5 6 show ?thesis by (intro conjI)
qed

end
